theory Spec2Isabelle
  imports Complex_Main
begin

section \<open>Data model\<close>

text \<open>
  The tables of \<^verbatim>\<open>schema.sql\<close> that the alert engine reads and writes, as records.
  A numeric column or a JavaScript number is modelled by the real number it denotes
  (comparison of finite doubles is exact, so it agrees with comparison of reals;
  arithmetic is exact in the model, and the one place where the rounding of doubles
  changes a result, the distance of the geospatial matcher, is described there); a
  nullable column or a nullable JavaScript value is an \<open>option\<close>. The two ENUM columns
  of \<^verbatim>\<open>alert_rules\<close> are datatypes with exactly the values of the schema.
  Timestamps (\<^verbatim>\<open>created_at\<close>, \<^verbatim>\<open>expires_at\<close>) are not modelled: the engine never reads them
  except to order rows of which it only tests whether there is one.
  Every \<^verbatim>\<open>db.execute\<close> is modelled as a statement that completes on the tables; a
  statement rejected by the store (which the catch-all handlers only log) is not
  part of the model. A call runs alone: the interleaving of the two loops at their
  \<^verbatim>\<open>await\<close> points is not modelled. Strings are compared by equality; the collation of a
  column can only identify more strings.
\<close>

datatype weather_condition =
  rain_sum | wind_speed | temperature | humidity | aqi | earthquake_magnitude

text \<open>The operators \<^verbatim>\<open>'>'\<close>, \<^verbatim>\<open>'<'\<close>, \<^verbatim>\<open>'>='\<close>, \<^verbatim>\<open>'<='\<close>.\<close>

datatype operator = Gt | Lt | Ge | Le

record location =
  loc_id :: int
  loc_name :: string
  latitude :: real
  longitude :: real
  loc_is_active :: bool

record disaster =
  dis_id :: int
  dis_name :: string
  dis_is_active :: bool

record alert_rule =
  rule_id :: int
  rule_location_id :: "int option"
  rule_disaster_id :: int
  weather_condition :: weather_condition
  threshold_value :: real
  operator :: operator
  severity_level :: string
  message_template :: "string option"
  rule_is_active :: bool

text \<open>
  The description of a system alert is a template filled with numbers; the model keeps
  the template and the values that fill it instead of JavaScript's rendering of a
  number as text:
  \<^verbatim>\<open>`${rule.weather_condition} is ${currentValue} (threshold: ${rule.threshold_value}).`\<close> and
  \<^verbatim>\<open>`Magnitude ${currentValue} detected. Epicenter: ${earthquakeData.place}. Threshold: ${rule.threshold_value}.`\<close>
\<close>

datatype alert_text =
  Hazard_text weather_condition real real
  | Seismic_text real string real
  | Free_text string

record alert =
  alert_id :: int
  disaster_id :: int
  location_id :: int
  title :: string
  description :: alert_text
  severity :: string
  source :: string
  is_active :: bool
  external_id :: "string option"

text \<open>The \<^verbatim>\<open>current\<close> object of the weather provider, with the air quality index merged in.\<close>

record weather =
  temperature_2m :: "real option"
  relative_humidity_2m :: "real option"
  rain :: "real option"
  wind_speed_10m :: "real option"
  us_aqi :: "real option"

text \<open>One feature of the seismic feed, and the object \<^verbatim>\<open>maxEq\<close> built from it.\<close>

record feature =
  feature_id :: string
  coord_lon :: real
  coord_lat :: real
  mag :: "real option"
  feature_place :: string
  feature_time :: int

record quake =
  quake_id :: string
  magnitude :: "real option"
  distance :: real
  place :: string
  time :: int

text \<open>
  A row of \<^verbatim>\<open>weather_logs\<close>: the reading (the column \<^verbatim>\<open>data\<close> and the columns copied from
  it), the column \<^verbatim>\<open>aqi\<close>, the event passed along, and \<open>fetched_at\<close> in seconds.
\<close>

record weather_log =
  log_location_id :: int
  log_weather :: weather
  log_aqi :: "real option"
  log_earthquake_magnitude :: "real option"
  log_earthquake_id :: "string option"
  fetched_at :: int

text \<open>A row of \<^verbatim>\<open>earthquake_logs\<close>, whose key \<^verbatim>\<open>uq_location_usgs\<close> is (location_id, usgs_id).\<close>

record earthquake_log =
  eqlog_location_id :: int
  eqlog_magnitude :: real
  usgs_id :: string

text \<open>
  Modelled from the spec: the \<^verbatim>\<open>settings\<close> table, which \<^verbatim>\<open>schema.sql\<close> does not declare. The
  specification has it as a flat mapping from keys to strings; here it is the list of its
  (setting_key, setting_value) rows, as the statements of \<^verbatim>\<open>getSetting\<close> and of the settings
  routes read and write it. The other fields of the store are the tables of the schema.
\<close>

record db =
  locations :: "location list"
  disasters :: "disaster list"
  alert_rules :: "alert_rule list"
  alerts :: "alert list"
  alerts_auto_increment :: int
  weather_logs :: "weather_log list"
  earthquake_logs :: "earthquake_log list"
  settings :: "(string \<times> string) list"

section \<open>Statements on the alerts table\<close>

text \<open>
  \<^verbatim>\<open>SELECT ar.* FROM alert_rules ar JOIN disasters d ON d.id = ar.disaster_id
  WHERE (ar.location_id = ? OR ar.location_id IS NULL) AND d.is_active = 1 AND ar.is_active = 1\<close>.
  The statement has no ORDER BY; the model returns the rows in table order.
\<close>

definition select_rules :: "db \<Rightarrow> int \<Rightarrow> alert_rule list" where
  "select_rules s lid =
     [ar. ar \<leftarrow> alert_rules s, d \<leftarrow> disasters s,
          dis_id d = rule_disaster_id ar,
          (rule_location_id ar = Some lid \<or> rule_location_id ar = None)
            \<and> dis_is_active d \<and> rule_is_active ar]"

text \<open>\<^verbatim>\<open>SELECT id FROM alerts WHERE external_id = ? AND location_id = ?\<close>\<close>

definition alerts_with_external_id :: "alert list \<Rightarrow> string \<Rightarrow> int \<Rightarrow> alert list" where
  "alerts_with_external_id as x lid =
     [a \<leftarrow> as. external_id a = Some x \<and> location_id a = lid]"

text \<open>\<^verbatim>\<open>SELECT ... FROM alerts WHERE disaster_id = ? AND location_id = ? AND is_active = 1\<close>\<close>

definition active_alerts :: "alert list \<Rightarrow> int \<Rightarrow> int \<Rightarrow> alert list" where
  "active_alerts as d lid =
     [a \<leftarrow> as. disaster_id a = d \<and> location_id a = lid \<and> is_active a]"

text \<open>\<^verbatim>\<open>UPDATE alerts SET is_active = 0 WHERE disaster_id = ? AND location_id = ? AND is_active = 1\<close>\<close>

definition deactivate_rows :: "int \<Rightarrow> int \<Rightarrow> alert list \<Rightarrow> alert list" where
  "deactivate_rows d lid as =
     map (\<lambda>a. if disaster_id a = d \<and> location_id a = lid \<and> is_active a
              then a\<lparr>is_active := False\<rparr> else a) as"

definition deactivate :: "int \<Rightarrow> int \<Rightarrow> db \<Rightarrow> db" where
  "deactivate d lid s = s\<lparr>alerts := deactivate_rows d lid (alerts s)\<rparr>"

text \<open>
  \<^verbatim>\<open>INSERT INTO alerts (disaster_id, location_id, title, description, severity, source, external_id)\<close>:
  the id comes from the AUTO_INCREMENT counter and \<open>is_active\<close> from its default TRUE.
\<close>

definition new_alert ::
  "int \<Rightarrow> int \<Rightarrow> int \<Rightarrow> string \<Rightarrow> alert_text \<Rightarrow> string \<Rightarrow> string \<Rightarrow> string option \<Rightarrow> alert" where
  "new_alert i d lid ttl descr sev src ext =
     \<lparr>alert_id = i, disaster_id = d, location_id = lid, title = ttl, description = descr,
      severity = sev, source = src, is_active = True, external_id = ext\<rparr>"

definition insert_alert ::
  "int \<Rightarrow> int \<Rightarrow> string \<Rightarrow> alert_text \<Rightarrow> string \<Rightarrow> string \<Rightarrow> string option \<Rightarrow> db \<Rightarrow> db" where
  "insert_alert d lid ttl descr sev src ext s =
     s\<lparr>alerts := alerts s @ [new_alert (alerts_auto_increment s) d lid ttl descr sev src ext],
       alerts_auto_increment := alerts_auto_increment s + 1\<rparr>"

section \<open>Rule evaluation and the alert lifecycle: checkRulesAndAlert\<close>

datatype rule_target = Weather_target | Earthquake_target

text \<open>The \<^verbatim>\<open>switch\<close> on \<^verbatim>\<open>rule.weather_condition\<close>: the current value and the rule's target.\<close>

fun currentValue_of :: "weather_condition \<Rightarrow> weather option \<Rightarrow> quake option \<Rightarrow> real option" where
  "currentValue_of rain_sum w e = Option.bind w rain"
| "currentValue_of wind_speed w e = Option.bind w wind_speed_10m"
| "currentValue_of temperature w e = Option.bind w temperature_2m"
| "currentValue_of humidity w e = Option.bind w relative_humidity_2m"
| "currentValue_of aqi w e = Option.bind w us_aqi"
| "currentValue_of earthquake_magnitude w e = Option.bind e magnitude"

fun ruleTarget_of :: "weather_condition \<Rightarrow> rule_target" where
  "ruleTarget_of earthquake_magnitude = Earthquake_target"
| "ruleTarget_of _ = Weather_target"

text \<open>The four \<^verbatim>\<open>if\<close> statements that set \<^verbatim>\<open>triggered\<close>, in the source's order.\<close>

definition evaluate_operator :: "alert_rule \<Rightarrow> real \<Rightarrow> bool" where
  "evaluate_operator rule currentValue =
     (let triggered = False;
          triggered = (if operator rule = Gt \<and> currentValue > threshold_value rule
                       then True else triggered);
          triggered = (if operator rule = Lt \<and> currentValue < threshold_value rule
                       then True else triggered);
          triggered = (if operator rule = Ge \<and> currentValue \<ge> threshold_value rule
                       then True else triggered);
          triggered = (if operator rule = Le \<and> currentValue \<le> threshold_value rule
                       then True else triggered)
      in triggered)"

text \<open>JavaScript's \<^verbatim>\<open>x || fallback\<close> on a string that may be null: null and the empty string are falsy.\<close>

definition or_else :: "string option \<Rightarrow> string \<Rightarrow> string" where
  "or_else x fallback = (case x of None \<Rightarrow> fallback | Some v \<Rightarrow> if v = [] then fallback else v)"

record cycle =
  store :: db
  triggeredDisasterIds :: "int set"
  earthquakeDisasterIds :: "int set"

text \<open>
  The earthquake branch of a triggered rule: dedup by the event id, else deactivate the
  pair's active alerts and insert the new alert.
\<close>

definition earthquake_alert :: "location \<Rightarrow> alert_rule \<Rightarrow> real \<Rightarrow> quake \<Rightarrow> db \<Rightarrow> db" where
  "earthquake_alert location rule currentValue earthquakeData s =
     (if alerts_with_external_id (alerts s) (quake_id earthquakeData) (loc_id location) \<noteq> []
      then s
      else insert_alert (rule_disaster_id rule) (loc_id location)
             (''Automated Alert: '' @ or_else (message_template rule) ''Seismic Event Detected'')
             (Seismic_text currentValue (place earthquakeData) (threshold_value rule))
             (or_else (Some (severity_level rule)) ''Medium'') ''System''
             (Some (quake_id earthquakeData))
             (deactivate (rule_disaster_id rule) (loc_id location) s))"

text \<open>
  The weather branch of a triggered rule: when the pair has an active alert, deactivate
  the pair's active alerts; then insert the new alert.
\<close>

definition weather_alert :: "location \<Rightarrow> alert_rule \<Rightarrow> real \<Rightarrow> db \<Rightarrow> db" where
  "weather_alert location rule currentValue s =
     (let existingRows = active_alerts (alerts s) (rule_disaster_id rule) (loc_id location);
          s' = (if existingRows \<noteq> []
                then deactivate (rule_disaster_id rule) (loc_id location) s else s)
      in insert_alert (rule_disaster_id rule) (loc_id location)
           (''Automated Alert: '' @ or_else (message_template rule) ''Hazard Detected'')
           (Hazard_text (weather_condition rule) currentValue (threshold_value rule))
           (or_else (Some (severity_level rule)) ''Medium'') ''System'' None s')"

text \<open>One iteration of the loop over the rules.\<close>

definition process_rule ::
  "location \<Rightarrow> weather option \<Rightarrow> quake option \<Rightarrow> alert_rule \<Rightarrow> cycle \<Rightarrow> cycle" where
  "process_rule location weatherData earthquakeData rule c =
     (let currentValue = currentValue_of (weather_condition rule) weatherData earthquakeData;
          ruleTarget = ruleTarget_of (weather_condition rule);
          seen = (if ruleTarget = Earthquake_target
                  then c\<lparr>earthquakeDisasterIds :=
                           insert (rule_disaster_id rule) (earthquakeDisasterIds c)\<rparr>
                  else c)
      in if (ruleTarget = Weather_target \<and> weatherData = None)
            \<or> (ruleTarget = Earthquake_target \<and> earthquakeData = None)
         then seen
         else (case currentValue of
                 None \<Rightarrow> seen
               | Some v \<Rightarrow>
                   if evaluate_operator rule v
                   then (let t = seen\<lparr>triggeredDisasterIds :=
                                       insert (rule_disaster_id rule) (triggeredDisasterIds seen)\<rparr>
                         in if ruleTarget = Earthquake_target
                            then (case earthquakeData of
                                    None \<Rightarrow> t
                                  | Some e \<Rightarrow> t\<lparr>store := earthquake_alert location rule v e (store t)\<rparr>)
                            else t\<lparr>store := weather_alert location rule v (store t)\<rparr>)
                   else seen))"

fun for_each_rule ::
  "location \<Rightarrow> weather option \<Rightarrow> quake option \<Rightarrow> alert_rule list \<Rightarrow> cycle \<Rightarrow> cycle" where
  "for_each_rule location weatherData earthquakeData [] c = c"
| "for_each_rule location weatherData earthquakeData (rule # rules) c =
     for_each_rule location weatherData earthquakeData rules
       (process_rule location weatherData earthquakeData rule c)"

text \<open>The auto-deactivation pass over \<^verbatim>\<open>weatherDisasterIds\<close>.\<close>

fun auto_deactivation :: "location \<Rightarrow> int set \<Rightarrow> int list \<Rightarrow> db \<Rightarrow> db" where
  "auto_deactivation location triggered [] s = s"
| "auto_deactivation location triggered (disasterId # ids) s =
     auto_deactivation location triggered ids
       (if disasterId \<notin> triggered
        then (if active_alerts (alerts s) disasterId (loc_id location) \<noteq> []
              then deactivate disasterId (loc_id location) s else s)
        else s)"

definition weatherDisasterIds :: "alert_rule list \<Rightarrow> int list" where
  "weatherDisasterIds rules =
     map rule_disaster_id [r \<leftarrow> rules. weather_condition r \<noteq> earthquake_magnitude]"

definition run_rules :: "location \<Rightarrow> weather option \<Rightarrow> quake option \<Rightarrow> db \<Rightarrow> cycle" where
  "run_rules location weatherData earthquakeData s =
     for_each_rule location weatherData earthquakeData (select_rules s (loc_id location))
       \<lparr>store = s, triggeredDisasterIds = {}, earthquakeDisasterIds = {}\<rparr>"

definition checkRulesAndAlert :: "location \<Rightarrow> weather option \<Rightarrow> quake option \<Rightarrow> db \<Rightarrow> db" where
  "checkRulesAndAlert location weatherData earthquakeData s =
     (let rules = select_rules s (loc_id location);
          c = run_rules location weatherData earthquakeData s
      in if weatherData \<noteq> None
         then auto_deactivation location (triggeredDisasterIds c) (weatherDisasterIds rules) (store c)
         else store c)"

section \<open>The invariant: at most one active alert per (disaster, location)\<close>

definition one_active_per_pair :: "alert list \<Rightarrow> bool" where
  "one_active_per_pair as =
     (\<forall>a \<in> set as. is_active a \<longrightarrow>
        length (active_alerts as (disaster_id a) (location_id a)) \<le> 1)"

text \<open>
  A rule produces a triggered outcome in a cycle when its condition resolves to a value
  and the operator holds: the condition under which \<open>process_rule\<close> reaches the branch
  \<^verbatim>\<open>if (triggered)\<close>.
\<close>

definition triggers :: "alert_rule \<Rightarrow> weather option \<Rightarrow> quake option \<Rightarrow> bool" where
  "triggers rule weatherData earthquakeData =
     (case currentValue_of (weather_condition rule) weatherData earthquakeData of
        None \<Rightarrow> False
      | Some v \<Rightarrow> evaluate_operator rule v)"

section \<open>The geospatial matcher\<close>

definition deg2rad :: "real \<Rightarrow> real" where
  "deg2rad deg = deg * (pi / 180)"

text \<open>\<^verbatim>\<open>Math.atan2(y, x)\<close> on real numbers.\<close>

definition atan2 :: "real \<Rightarrow> real \<Rightarrow> real" where
  "atan2 y x =
     (if x > 0 then arctan (y / x)
      else if x < 0 then (if y \<ge> 0 then arctan (y / x) + pi else arctan (y / x) - pi)
      else if y > 0 then pi / 2
      else if y < 0 then - (pi / 2)
      else 0)"

text \<open>
  The haversine distance, on real numbers. On real numbers \<open>a\<close> lies between 0 and 1 and
  both square roots are defined. The source computes \<open>a\<close> in doubles: for points close
  to antipodal the rounded sum can exceed 1 (it is 1.0000000000000002 for (8, 0) and
  (-8, 180)); \<^verbatim>\<open>Math.sqrt(1 - a)\<close> is then NaN, so is the distance, and the comparison
  \<^verbatim>\<open>distance <= radiusKm\<close> of the matcher is false. The definition below does not have
  this case: it agrees with the source up to the rounding of doubles, and not for a
  pair of points whose rounded \<open>a\<close> exceeds 1. Such a pair is about 20000 km apart, so
  with the radius of 500 km that every caller in the repository uses, the NaN of the
  source and the distance of the model both put the event out of range.
\<close>

definition getDistanceFromLatLonInKm :: "real \<Rightarrow> real \<Rightarrow> real \<Rightarrow> real \<Rightarrow> real" where
  "getDistanceFromLatLonInKm lat1 lon1 lat2 lon2 =
     (let R = 6371;
          dLat = deg2rad (lat2 - lat1);
          dLon = deg2rad (lon2 - lon1);
          a = sin (dLat / 2) * sin (dLat / 2)
              + cos (deg2rad lat1) * cos (deg2rad lat2) * sin (dLon / 2) * sin (dLon / 2);
          c = 2 * atan2 (sqrt a) (sqrt (1 - a));
          d = R * c
      in d)"

text \<open>
  A magnitude of the feed may be null; JavaScript's \<^verbatim>\<open>>\<close> converts null to 0
  before it compares.
\<close>

definition to_number :: "real option \<Rightarrow> real" where
  "to_number x = (case x of None \<Rightarrow> 0 | Some v \<Rightarrow> v)"

text \<open>The object stored in \<^verbatim>\<open>maxEq\<close> for a feature at a given distance.\<close>

definition quake_of :: "feature \<Rightarrow> real \<Rightarrow> quake" where
  "quake_of eq km =
     \<lparr>quake_id = feature_id eq, magnitude = mag eq, distance = km,
      place = feature_place eq, time = feature_time eq\<rparr>"

text \<open>The loop of \<^verbatim>\<open>checkEarthquakesNearLocation\<close>, with \<^verbatim>\<open>maxEq\<close> as accumulator.\<close>

fun nearest_loop :: "quake option \<Rightarrow> feature list \<Rightarrow> real \<Rightarrow> real \<Rightarrow> real \<Rightarrow> quake option" where
  "nearest_loop maxEq [] lat lon radiusKm = maxEq"
| "nearest_loop maxEq (eq # earthquakes) lat lon radiusKm =
     (let eqLon = coord_lon eq;
          eqLat = coord_lat eq;
          km = getDistanceFromLatLonInKm lat lon eqLat eqLon
      in nearest_loop
           (if km \<le> radiusKm
            then (case maxEq of
                    None \<Rightarrow> Some (quake_of eq km)
                  | Some m \<Rightarrow>
                      if to_number (mag eq) > to_number (magnitude m)
                      then Some (quake_of eq km) else maxEq)
            else maxEq)
           earthquakes lat lon radiusKm)"

definition checkEarthquakesNearLocation ::
  "feature list \<Rightarrow> real \<Rightarrow> real \<Rightarrow> real \<Rightarrow> quake option" where
  "checkEarthquakesNearLocation earthquakes lat lon radiusKm =
     nearest_loop None earthquakes lat lon radiusKm"

text \<open>A feature is within the radius of the target.\<close>

definition within_radius :: "real \<Rightarrow> real \<Rightarrow> real \<Rightarrow> feature \<Rightarrow> bool" where
  "within_radius lat lon radiusKm eq =
     (getDistanceFromLatLonInKm lat lon (coord_lat eq) (coord_lon eq) \<le> radiusKm)"

section \<open>The scheduler\<close>

text \<open>
  What the process cannot compute by itself: the answers of the two providers and the
  clock of the store. \<open>clock env l\<close> is the store's \<^verbatim>\<open>NOW()\<close> when the reading of location
  \<open>l\<close> is logged.
\<close>

record env =
  fetchWeatherData :: "real \<Rightarrow> real \<Rightarrow> weather option"
  fetchRecentEarthquakes :: "feature list"
  clock :: "int \<Rightarrow> int"

text \<open>A JavaScript number that is an integer or NaN: the results of \<^verbatim>\<open>parseInt\<close>.\<close>

datatype jsnum = Num int | NaN

text \<open>
  The process-wide state of the scheduler module; a timer holds the delay in milliseconds
  it was armed with. (\<^verbatim>\<open>earthquakeFetchTime\<close> is written and never read; it is left out.)
\<close>

record scheduler =
  database :: db
  cachedEarthquakes :: "feature list option"
  weatherTimer :: "jsnum option"
  earthquakeTimer :: "jsnum option"

text \<open>
  \<^verbatim>\<open>logWeatherData\<close>: nothing without data; skipped when the location has a row younger
  than 25 seconds; else one row with the reading and the event passed along. The column
  \<^verbatim>\<open>aqi\<close> is \<^verbatim>\<open>data.us_aqi || null\<close>: an index that is null or 0 is stored as null.
\<close>

definition logWeatherData :: "int \<Rightarrow> int \<Rightarrow> weather option \<Rightarrow> quake option \<Rightarrow> db \<Rightarrow> db" where
  "logWeatherData now locationId data earthquakeData s =
     (case data of
        None \<Rightarrow> s
      | Some d \<Rightarrow>
          if [l \<leftarrow> weather_logs s. log_location_id l = locationId \<and> fetched_at l > now - 25] \<noteq> []
          then s
          else s\<lparr>weather_logs := weather_logs s @
                  [\<lparr>log_location_id = locationId, log_weather = d,
                    log_aqi =
                      (case us_aqi d of None \<Rightarrow> None
                       | Some v \<Rightarrow> if v = 0 then None else Some v),
                    log_earthquake_magnitude =
                      (case earthquakeData of None \<Rightarrow> None | Some e \<Rightarrow> magnitude e),
                    log_earthquake_id =
                      (case earthquakeData of None \<Rightarrow> None | Some e \<Rightarrow> Some (quake_id e)),
                    fetched_at = now\<rparr>]\<rparr>)"

text \<open>
  \<^verbatim>\<open>logEarthquakeData\<close>: \<^verbatim>\<open>INSERT ... ON DUPLICATE KEY UPDATE fetched_at\<close>. The column
  \<^verbatim>\<open>magnitude\<close> is NOT NULL, so a null magnitude is refused by the table and the handler
  of the function only logs the error.
\<close>

definition logEarthquakeData :: "int \<Rightarrow> quake option \<Rightarrow> db \<Rightarrow> db" where
  "logEarthquakeData locationId earthquakeData s =
     (case earthquakeData of
        None \<Rightarrow> s
      | Some e \<Rightarrow>
          (case magnitude e of
             None \<Rightarrow> s
           | Some m \<Rightarrow>
               if [l \<leftarrow> earthquake_logs s.
                     eqlog_location_id l = locationId \<and> usgs_id l = quake_id e] \<noteq> []
               then s
               else s\<lparr>earthquake_logs := earthquake_logs s @
                       [\<lparr>eqlog_location_id = locationId, eqlog_magnitude = m,
                         usgs_id = quake_id e\<rparr>]\<rparr>))"

text \<open>The loop of \<^verbatim>\<open>runWeatherCheck\<close> over the active locations.\<close>

fun weather_locations :: "env \<Rightarrow> feature list option \<Rightarrow> location list \<Rightarrow> db \<Rightarrow> db" where
  "weather_locations e cached [] s = s"
| "weather_locations e cached (location # rest) s =
     (let weatherData = fetchWeatherData e (latitude location) (longitude location);
          earthquakeData =
            (case cached of
               None \<Rightarrow> None
             | Some feed \<Rightarrow>
                 checkEarthquakesNearLocation feed (latitude location) (longitude location) 500)
      in weather_locations e cached rest
           (if weatherData \<noteq> None
            then checkRulesAndAlert location weatherData None
                   (logWeatherData (clock e (loc_id location)) (loc_id location)
                      weatherData earthquakeData s)
            else s))"

definition runWeatherCheck :: "env \<Rightarrow> scheduler \<Rightarrow> scheduler" where
  "runWeatherCheck e sch =
     sch\<lparr>database :=
           weather_locations e (cachedEarthquakes sch)
             [l \<leftarrow> locations (database sch). loc_is_active l] (database sch)\<rparr>"

text \<open>The loop of \<^verbatim>\<open>runEarthquakeCheck\<close> over the active locations.\<close>

fun earthquake_locations :: "feature list \<Rightarrow> location list \<Rightarrow> db \<Rightarrow> db" where
  "earthquake_locations earthquakes [] s = s"
| "earthquake_locations earthquakes (location # rest) s =
     (let earthquakeData =
            checkEarthquakesNearLocation earthquakes (latitude location) (longitude location) 500
      in earthquake_locations earthquakes rest
           (if earthquakeData \<noteq> None
            then checkRulesAndAlert location None earthquakeData
                   (logEarthquakeData (loc_id location) earthquakeData s)
            else s))"

definition runEarthquakeCheck :: "env \<Rightarrow> scheduler \<Rightarrow> scheduler" where
  "runEarthquakeCheck e sch =
     (let earthquakes = fetchRecentEarthquakes e
      in sch\<lparr>cachedEarthquakes := Some earthquakes,
             database :=
               earthquake_locations earthquakes
                 [l \<leftarrow> locations (database sch). loc_is_active l] (database sch)\<rparr>)"

subsection \<open>Intervals\<close>

text \<open>
  \<^verbatim>\<open>parseInt(string, 10)\<close>: leading white space is skipped, then an optional sign, then the
  longest run of decimal digits; no digit gives NaN. (White space is the ASCII one, a
  \<open>char\<close> being a byte. The value of a run of digits is kept exact; JavaScript rounds it
  to a double beyond 2^53.)
\<close>

definition is_white_space :: "char \<Rightarrow> bool" where
  "is_white_space ch = (of_char ch \<in> {9, 10, 11, 12, 13, 32 :: nat})"

definition is_digit :: "char \<Rightarrow> bool" where
  "is_digit ch = (48 \<le> (of_char ch :: nat) \<and> (of_char ch :: nat) \<le> 57)"

definition digits_value :: "string \<Rightarrow> int" where
  "digits_value ds = foldl (\<lambda>acc ch. 10 * acc + (int (of_char ch) - 48)) 0 ds"

definition parseInt :: "string \<Rightarrow> jsnum" where
  "parseInt str =
     (let S = dropWhile is_white_space str;
          sign = (case S of [] \<Rightarrow> 1 | ch # _ \<Rightarrow> if ch = CHR ''-'' then - 1 else 1);
          S = (case S of
                 [] \<Rightarrow> []
               | ch # rest \<Rightarrow> if ch = CHR ''+'' \<or> ch = CHR ''-'' then rest else S);
          Z = takeWhile is_digit S
      in if Z = [] then NaN else Num (sign * digits_value Z))"

text \<open>
  \<^verbatim>\<open>getSetting\<close>: the first row of the key, parsed; the default when the key has no row.
\<close>

definition getSetting :: "db \<Rightarrow> string \<Rightarrow> jsnum \<Rightarrow> jsnum" where
  "getSetting s key defaultValue =
     (case [v. (k, v) \<leftarrow> settings s, k = key] of
        [] \<Rightarrow> defaultValue
      | setting_value # _ \<Rightarrow> parseInt setting_value)"

text \<open>\<^verbatim>\<open>Math.max\<close> and \<^verbatim>\<open>*\<close>: NaN when an operand is NaN.\<close>

fun js_max :: "jsnum \<Rightarrow> jsnum \<Rightarrow> jsnum" where
  "js_max (Num a) (Num b) = Num (max a b)"
| "js_max _ _ = NaN"

fun js_times :: "jsnum \<Rightarrow> jsnum \<Rightarrow> jsnum" where
  "js_times (Num a) (Num b) = Num (a * b)"
| "js_times _ _ = NaN"

definition weatherLoop :: "env \<Rightarrow> scheduler \<Rightarrow> scheduler" where
  "weatherLoop e sch =
     (let sch = runWeatherCheck e sch;
          intervalSecs = getSetting (database sch) ''weather_fetch_interval'' (Num 300)
      in sch\<lparr>weatherTimer := Some (js_times (js_max (Num 30) intervalSecs) (Num 1000))\<rparr>)"

definition earthquakeLoop :: "env \<Rightarrow> scheduler \<Rightarrow> scheduler" where
  "earthquakeLoop e sch =
     (let sch = runEarthquakeCheck e sch;
          intervalSecs = getSetting (database sch) ''earthquake_fetch_interval'' (Num 60)
      in sch\<lparr>earthquakeTimer := Some (js_times (js_max (Num 30) intervalSecs) (Num 1000))\<rparr>)"

text \<open>
  The timer waits at least the floor of 30 seconds. \<^verbatim>\<open>setTimeout\<close> waits the number of
  milliseconds it is given only when that number is between 1 and \<open>2^31 - 1\<close>; given NaN
  or a number above \<open>2^31 - 1 = 2147483647\<close> it waits 1 millisecond.
\<close>

definition at_least_floor :: "jsnum option \<Rightarrow> bool" where
  "at_least_floor timer =
     (case timer of Some (Num ms) \<Rightarrow> 30 * 1000 \<le> ms \<and> ms \<le> 2147483647 | _ \<Rightarrow> False)"

section \<open>Notions used to state the claims\<close>

text \<open>The rules of a list whose target is the earthquake data.\<close>

definition earthquake_rules :: "alert_rule list \<Rightarrow> alert_rule list" where
  "earthquake_rules rules = [r \<leftarrow> rules. weather_condition r = earthquake_magnitude]"

text \<open>
  An alert row that is not of a pair (disaster of an earthquake rule of the list, the
  location).
\<close>

definition outside_earthquake_rules :: "alert_rule list \<Rightarrow> int \<Rightarrow> alert \<Rightarrow> bool" where
  "outside_earthquake_rules rules lid a =
     (\<not> (location_id a = lid
         \<and> disaster_id a \<in> set (map rule_disaster_id (earthquake_rules rules))))"

text \<open>
  The history of a pair written by weather rules: its rows without external id, and of
  each row the title and the severity. \<open>hazard_headline\<close> is the title and the severity
  that \<open>weather_alert\<close> writes for a rule.
\<close>

definition weather_rows :: "alert list \<Rightarrow> int \<Rightarrow> int \<Rightarrow> alert list" where
  "weather_rows as d lid =
     [a \<leftarrow> as. disaster_id a = d \<and> location_id a = lid \<and> external_id a = None]"

definition headline :: "alert \<Rightarrow> string \<times> string" where
  "headline a = (title a, severity a)"

definition hazard_headline :: "alert_rule \<Rightarrow> string \<times> string" where
  "hazard_headline rule =
     (''Automated Alert: '' @ or_else (message_template rule) ''Hazard Detected'',
      or_else (Some (severity_level rule)) ''Medium'')"

text \<open>A cycle whose store has its reading log replaced.\<close>

definition with_logs :: "weather_log list \<Rightarrow> cycle \<Rightarrow> cycle" where
  "with_logs x c = c\<lparr>store := (store c)\<lparr>weather_logs := x\<rparr>\<rparr>"

text \<open>
  The weather cycle as the specification words it, for comparison with \<open>runWeatherCheck\<close>:
  each location is evaluated against the strongest nearby event of the cached feed. It
  differs from \<open>weather_locations\<close> in the third argument of \<open>checkRulesAndAlert\<close> only.
\<close>

fun claimed_weather_locations :: "env \<Rightarrow> feature list option \<Rightarrow> location list \<Rightarrow> db \<Rightarrow> db" where
  "claimed_weather_locations e cached [] s = s"
| "claimed_weather_locations e cached (location # rest) s =
     (let weatherData = fetchWeatherData e (latitude location) (longitude location);
          earthquakeData =
            (case cached of
               None \<Rightarrow> None
             | Some feed \<Rightarrow>
                 checkEarthquakesNearLocation feed (latitude location) (longitude location) 500)
      in claimed_weather_locations e cached rest
           (if weatherData \<noteq> None
            then checkRulesAndAlert location weatherData earthquakeData
                   (logWeatherData (clock e (loc_id location)) (loc_id location)
                      weatherData earthquakeData s)
            else s))"

definition claimed_runWeatherCheck :: "env \<Rightarrow> scheduler \<Rightarrow> scheduler" where
  "claimed_runWeatherCheck e sch =
     sch\<lparr>database :=
           claimed_weather_locations e (cachedEarthquakes sch)
             [l \<leftarrow> locations (database sch). loc_is_active l] (database sch)\<rparr>"

section \<open>Example data\<close>

text \<open>
  The scenario of the specification: Dhaka with the rules "rain_sum >= 25, Medium" and
  "rain_sum >= 50, High" of Flash Flood and the rule "earthquake_magnitude >= 6.5,
  Critical" of Earthquake, and an active Medium alert of Flash Flood.
\<close>

definition dhaka :: location where
  "dhaka = \<lparr>loc_id = 1, loc_name = ''Dhaka'', latitude = 23.81, longitude = 90.41,
            loc_is_active = True\<rparr>"

definition earthquake_type :: disaster where
  "earthquake_type = \<lparr>dis_id = 1, dis_name = ''Earthquake'', dis_is_active = True\<rparr>"

definition flash_flood :: disaster where
  "flash_flood = \<lparr>dis_id = 2, dis_name = ''Flash Flood'', dis_is_active = True\<rparr>"

definition rain_medium :: alert_rule where
  "rain_medium =
     \<lparr>rule_id = 1, rule_location_id = None, rule_disaster_id = 2, weather_condition = rain_sum,
      threshold_value = 25, operator = Ge, severity_level = ''Medium'',
      message_template = Some ''Heavy rainfall'', rule_is_active = True\<rparr>"

definition rain_high :: alert_rule where
  "rain_high =
     \<lparr>rule_id = 2, rule_location_id = None, rule_disaster_id = 2, weather_condition = rain_sum,
      threshold_value = 50, operator = Ge, severity_level = ''High'',
      message_template = Some ''Very heavy rain'', rule_is_active = True\<rparr>"

definition quake_critical :: alert_rule where
  "quake_critical =
     \<lparr>rule_id = 3, rule_location_id = None, rule_disaster_id = 1,
      weather_condition = earthquake_magnitude,
      threshold_value = 6.5, operator = Ge, severity_level = ''Critical'',
      message_template = Some ''Major earthquake'', rule_is_active = True\<rparr>"

definition flood_alert :: alert where
  "flood_alert =
     \<lparr>alert_id = 1, disaster_id = 2, location_id = 1, title = ''Automated Alert: Heavy rainfall'',
      description = Hazard_text rain_sum 30 25, severity = ''Medium'', source = ''System'',
      is_active = True, external_id = None\<rparr>"

definition example_db :: db where
  "example_db =
     \<lparr>locations = [dhaka], disasters = [earthquake_type, flash_flood],
      alert_rules = [rain_medium, rain_high, quake_critical], alerts = [flood_alert],
      alerts_auto_increment = 2, weather_logs = [], earthquake_logs = [], settings = []\<rparr>"

definition reading :: "real \<Rightarrow> weather" where
  "reading mm =
     \<lparr>temperature_2m = Some 28, relative_humidity_2m = Some 80, rain = Some mm,
      wind_speed_10m = Some 12, us_aqi = Some 90\<rparr>"

definition strong_quake :: quake where
  "strong_quake =
     \<lparr>quake_id = ''us7000test'', magnitude = Some 6.8, distance = 120,
      place = ''40 km N of Dhaka'', time = 0\<rparr>"

text \<open>
  A rule that ties Flash Flood to the earthquake data as well, and the store with it.
\<close>

definition flood_after_quake :: alert_rule where
  "flood_after_quake =
     \<lparr>rule_id = 4, rule_location_id = Some 1, rule_disaster_id = 2,
      weather_condition = earthquake_magnitude,
      threshold_value = 6.5, operator = Ge, severity_level = ''Critical'',
      message_template = Some ''Embankment failure risk'', rule_is_active = True\<rparr>"

definition mixed_db :: db where
  "mixed_db = example_db\<lparr>alert_rules := [rain_medium, flood_after_quake]\<rparr>"

text \<open>
  A feed with an event at Dhaka's coordinates and one at the antipode of (0, 0); a store
  without alerts; providers that report no rain; a scheduler whose cache holds the event.
\<close>

definition near_feature :: feature where
  "near_feature =
     \<lparr>feature_id = ''us7000test'', coord_lon = 90.41, coord_lat = 23.81, mag = Some 6.8,
      feature_place = ''Dhaka'', feature_time = 0\<rparr>"

definition far_feature :: feature where
  "far_feature =
     \<lparr>feature_id = ''us7000far'', coord_lon = 180, coord_lat = 0, mag = Some 7.5,
      feature_place = ''Pacific'', feature_time = 0\<rparr>"

definition calm_db :: db where
  "calm_db = example_db\<lparr>alerts := []\<rparr>"

definition dry_env :: env where
  "dry_env = \<lparr>fetchWeatherData = (\<lambda>lat lon. Some (reading 0)), fetchRecentEarthquakes = [],
              clock = (\<lambda>l. 1000)\<rparr>"

definition cached_scheduler :: scheduler where
  "cached_scheduler =
     \<lparr>database = calm_db, cachedEarthquakes = Some [near_feature], weatherTimer = None,
      earthquakeTimer = None\<rparr>"

text \<open>
  A scheduler whose settings hold a weather interval that is no number; the store after a
  first delivery of the strong quake; a store whose only row with the quake's id is an
  inactive alert of Flash Flood; an event at (0, 0).
\<close>

definition stalled_scheduler :: scheduler where
  "stalled_scheduler =
     \<lparr>database = calm_db\<lparr>settings := [(''weather_fetch_interval'', ''abc'')]\<rparr>,
      cachedEarthquakes = None, weatherTimer = None, earthquakeTimer = None\<rparr>"



definition stale_alert :: alert where
  "stale_alert =
     \<lparr>alert_id = 2, disaster_id = 2, location_id = 1,
      title = ''Automated Alert: Embankment failure risk'',
      description = Seismic_text 6.8 ''40 km N of Dhaka'' 6.5, severity = ''Critical'',
      source = ''System'', is_active = False, external_id = Some ''us7000test''\<rparr>"

definition stale_db :: db where
  "stale_db = example_db\<lparr>alerts := [stale_alert], alerts_auto_increment := 3\<rparr>"

definition origin_feature :: feature where
  "origin_feature =
     \<lparr>feature_id = ''us7000near'', coord_lon = 0, coord_lat = 0, mag = Some 5.2,
      feature_place = ''Gulf of Guinea'', feature_time = 0\<rparr>"

text \<open>
  The Low tier of Earthquake beside the Critical one, and settings with an interval of an
  hour for the weather loop and of ten seconds for the earthquake loop.
\<close>

definition quake_low :: alert_rule where
  "quake_low =
     \<lparr>rule_id = 5, rule_location_id = None, rule_disaster_id = 1,
      weather_condition = earthquake_magnitude,
      threshold_value = 3, operator = Ge, severity_level = ''Low'',
      message_template = Some ''Minor seismic activity detected'', rule_is_active = True\<rparr>"

definition tiered_db :: db where
  "tiered_db = calm_db\<lparr>alert_rules := [quake_low, quake_critical]\<rparr>"

definition hourly_scheduler :: scheduler where
  "hourly_scheduler =
     \<lparr>database = calm_db\<lparr>settings := [(''weather_fetch_interval'', ''3600''),
                                        (''earthquake_fetch_interval'', ''10'')]\<rparr>,
      cachedEarthquakes = None, weatherTimer = None, earthquakeTimer = None\<rparr>"

text \<open>
  Settings with a weather interval of 2147484 seconds; the store of the scenario with an
  earthquake rule of Flash Flood after the two rain rules, and that store when its only
  alert is the inactive one that carries the quake's id; an event at the antipode of
  (8, 0) and a second, stronger event at (0, 0).
\<close>

definition oversized_scheduler :: scheduler where
  "oversized_scheduler =
     \<lparr>database = calm_db\<lparr>settings := [(''weather_fetch_interval'', ''2147484'')]\<rparr>,
      cachedEarthquakes = None, weatherTimer = None, earthquakeTimer = None\<rparr>"

definition overlap_db :: db where
  "overlap_db = example_db\<lparr>alert_rules := [rain_medium, rain_high, flood_after_quake]\<rparr>"

definition overlap_stale_db :: db where
  "overlap_stale_db = overlap_db\<lparr>alerts := [stale_alert], alerts_auto_increment := 3\<rparr>"

definition antipode_feature :: feature where
  "antipode_feature =
     \<lparr>feature_id = ''us7000anti'', coord_lon = 180, coord_lat = - 8, mag = Some 6.1,
      feature_place = ''South Pacific'', feature_time = 0\<rparr>"

definition origin_strong_feature :: feature where
  "origin_strong_feature =
     \<lparr>feature_id = ''us7000main'', coord_lon = 0, coord_lat = 0, mag = Some 6.1,
      feature_place = ''Gulf of Guinea'', feature_time = 0\<rparr>"

section \<open>Facts about the statements on the alerts table\<close>

lemma new_alert_fields [simp]:
  "alert_id (new_alert i d l ttl descr sev src ext) = i"
  "disaster_id (new_alert i d l ttl descr sev src ext) = d"
  "location_id (new_alert i d l ttl descr sev src ext) = l"
  "title (new_alert i d l ttl descr sev src ext) = ttl"
  "description (new_alert i d l ttl descr sev src ext) = descr"
  "severity (new_alert i d l ttl descr sev src ext) = sev"
  "source (new_alert i d l ttl descr sev src ext) = src"
  "is_active (new_alert i d l ttl descr sev src ext) = True"
  "external_id (new_alert i d l ttl descr sev src ext) = ext"
  by (simp_all add: new_alert_def)

lemma alerts_deactivate [simp]: "alerts (deactivate d l s) = deactivate_rows d l (alerts s)"
  by (simp add: deactivate_def)

lemma alerts_insert_alert [simp]:
  "alerts (insert_alert d l ttl descr sev src ext s) =
     alerts s @ [new_alert (alerts_auto_increment s) d l ttl descr sev src ext]"
  by (simp add: insert_alert_def)

lemma active_alerts_deactivate_rows_same:
  "active_alerts (deactivate_rows d l as) d l = []"
  by (induction as) (simp_all add: active_alerts_def deactivate_rows_def)

lemma active_alerts_deactivate_rows_other:
  "d \<noteq> d' \<or> l \<noteq> l' \<Longrightarrow>
   active_alerts (deactivate_rows d l as) d' l' = active_alerts as d' l'"
  unfolding active_alerts_def deactivate_rows_def filter_map
  by (induction as) auto

lemma active_alerts_deactivate_rows:
  "active_alerts (deactivate_rows d l as) d' l' =
     (if d = d' \<and> l = l' then [] else active_alerts as d' l')"
proof (cases "d = d' \<and> l = l'")
  case True
  then show ?thesis by (simp add: active_alerts_deactivate_rows_same)
next
  case False
  then have "d \<noteq> d' \<or> l \<noteq> l'" by simp
  from active_alerts_deactivate_rows_other [OF this] False show ?thesis by auto
qed

lemma active_alerts_append:
  "active_alerts (as @ bs) d l = active_alerts as d l @ active_alerts bs d l"
  by (simp add: active_alerts_def)

lemma active_alerts_single:
  "active_alerts [a] d l =
     (if disaster_id a = d \<and> location_id a = l \<and> is_active a then [a] else [])"
  by (simp add: active_alerts_def)

lemma deactivate_fields [simp]:
  "alerts_auto_increment (deactivate d l s) = alerts_auto_increment s"
  "alert_rules (deactivate d l s) = alert_rules s"
  "disasters (deactivate d l s) = disasters s"
  "locations (deactivate d l s) = locations s"
  "weather_logs (deactivate d l s) = weather_logs s"
  "earthquake_logs (deactivate d l s) = earthquake_logs s"
  "settings (deactivate d l s) = settings s"
  by (simp_all add: deactivate_def)

lemma insert_alert_fields [simp]:
  "alerts_auto_increment (insert_alert d l ttl descr sev src ext s) = alerts_auto_increment s + 1"
  "alert_rules (insert_alert d l ttl descr sev src ext s) = alert_rules s"
  "disasters (insert_alert d l ttl descr sev src ext s) = disasters s"
  "locations (insert_alert d l ttl descr sev src ext s) = locations s"
  "weather_logs (insert_alert d l ttl descr sev src ext s) = weather_logs s"
  "earthquake_logs (insert_alert d l ttl descr sev src ext s) = earthquake_logs s"
  "settings (insert_alert d l ttl descr sev src ext s) = settings s"
  by (simp_all add: insert_alert_def)

lemma filter_deactivate_rows_outside:
  assumes "\<And>a. disaster_id a = d \<Longrightarrow> location_id a = l \<Longrightarrow> \<not> P a"
  shows "filter P (deactivate_rows d l as) = filter P as"
  using assms by (induction as) (simp_all add: deactivate_rows_def)



lemma headline_weather_rows_deactivate_rows:
  "map headline (weather_rows (deactivate_rows d' l as) d lid) =
   map headline (weather_rows as d lid)"
  by (induction as) (simp_all add: weather_rows_def deactivate_rows_def headline_def)

lemma weather_rows_append:
  "weather_rows (as @ bs) d lid = weather_rows as d lid @ weather_rows bs d lid"
  by (simp add: weather_rows_def)

section \<open>Facts about one iteration of the rule loop\<close>

lemma evaluate_operator_iff:
  "evaluate_operator rule v \<longleftrightarrow>
     (case operator rule of
        Gt \<Rightarrow> v > threshold_value rule
      | Lt \<Rightarrow> v < threshold_value rule
      | Ge \<Rightarrow> v \<ge> threshold_value rule
      | Le \<Rightarrow> v \<le> threshold_value rule)"
  by (cases "operator rule") (simp_all add: evaluate_operator_def)

lemma currentValue_weather_None:
  "ruleTarget_of cond = Weather_target \<Longrightarrow> currentValue_of cond None e = None"
  by (cases cond) simp_all

lemma currentValue_earthquake_None:
  "ruleTarget_of cond = Earthquake_target \<Longrightarrow> currentValue_of cond w None = None"
  by (cases cond) simp_all

lemma ruleTarget_cases:
  "ruleTarget_of cond = Earthquake_target \<longleftrightarrow> cond = earthquake_magnitude"
  "ruleTarget_of cond = Weather_target \<longleftrightarrow> cond \<noteq> earthquake_magnitude"
  by (cases cond; simp)+

text \<open>What one iteration does to the set of triggered disasters and to the store.\<close>

lemma process_rule_triggered:
  "triggeredDisasterIds (process_rule location w e rule c) =
     (if triggers rule w e then insert (rule_disaster_id rule) (triggeredDisasterIds c)
      else triggeredDisasterIds c)"
proof (cases "ruleTarget_of (weather_condition rule)")
  case Weather_target
  then show ?thesis
    by (cases w)
       (simp_all add: process_rule_def triggers_def Let_def currentValue_weather_None
         split: option.split)
next
  case Earthquake_target
  then show ?thesis
    by (cases e)
       (simp_all add: process_rule_def triggers_def Let_def currentValue_earthquake_None
         split: option.split)
qed

lemma process_rule_not_triggered:
  assumes "\<not> triggers rule w e"
  shows "store (process_rule location w e rule c) = store c"
proof (cases "currentValue_of (weather_condition rule) w e")
  case None
  then show ?thesis by (simp add: process_rule_def Let_def)
next
  case (Some v)
  with assms have "\<not> evaluate_operator rule v" by (simp add: triggers_def)
  with Some show ?thesis by (simp add: process_rule_def Let_def)
qed

lemma process_rule_weather:
  assumes "weather_condition rule \<noteq> earthquake_magnitude"
    and "currentValue_of (weather_condition rule) w e = Some v"
    and "evaluate_operator rule v"
  shows "store (process_rule location w e rule c) = weather_alert location rule v (store c)"
proof -
  from assms(1) have t: "ruleTarget_of (weather_condition rule) = Weather_target"
    by (simp add: ruleTarget_cases)
  with assms(2) obtain wd where "w = Some wd"
    by (cases w) (simp_all add: currentValue_weather_None)
  with t assms show ?thesis by (simp add: process_rule_def Let_def)
qed

lemma process_rule_earthquake:
  assumes "weather_condition rule = earthquake_magnitude"
    and "magnitude ev = Some v"
    and "evaluate_operator rule v"
  shows "store (process_rule location w (Some ev) rule c) =
           earthquake_alert location rule v ev (store c)"
  using assms by (simp add: process_rule_def Let_def)

lemma for_each_rule_append:
  "for_each_rule location w e (xs @ ys) c =
   for_each_rule location w e ys (for_each_rule location w e xs c)"
  by (induction xs arbitrary: c) simp_all

lemma for_each_rule_triggered:
  "triggeredDisasterIds (for_each_rule location w e rules c) =
     triggeredDisasterIds c \<union> rule_disaster_id ` {r \<in> set rules. triggers r w e}"
  by (induction rules arbitrary: c) (auto simp: process_rule_triggered)

text \<open>A rule changes only the rows of its own (disaster, location) pair.\<close>

lemma weather_alert_outside:
  assumes "\<And>a. disaster_id a = rule_disaster_id rule \<Longrightarrow> location_id a = loc_id location \<Longrightarrow> \<not> P a"
  shows "filter P (alerts (weather_alert location rule v s)) = filter P (alerts s)"
  using assms by (simp add: weather_alert_def Let_def filter_deactivate_rows_outside)

lemma earthquake_alert_outside:
  assumes "\<And>a. disaster_id a = rule_disaster_id rule \<Longrightarrow> location_id a = loc_id location \<Longrightarrow> \<not> P a"
  shows "filter P (alerts (earthquake_alert location rule v ev s)) = filter P (alerts s)"
  using assms by (simp add: earthquake_alert_def filter_deactivate_rows_outside)

lemma process_rule_outside:
  assumes "\<And>a. disaster_id a = rule_disaster_id rule \<Longrightarrow> location_id a = loc_id location \<Longrightarrow> \<not> P a"
  shows "filter P (alerts (store (process_rule location w e rule c))) = filter P (alerts (store c))"
proof (cases "triggers rule w e")
  case False
  then show ?thesis by (simp add: process_rule_not_triggered)
next
  case True
  then obtain v where v: "currentValue_of (weather_condition rule) w e = Some v"
      "evaluate_operator rule v"
    by (auto simp: triggers_def split: option.splits)
  show ?thesis
  proof (cases "weather_condition rule = earthquake_magnitude")
    case False
    from process_rule_weather [OF False v] assms show ?thesis
      by (simp add: weather_alert_outside)
  next
    case True
    with v obtain ev where ev: "e = Some ev" "magnitude ev = Some v"
      by (cases e) simp_all
    from process_rule_earthquake [OF True ev(2) v(2)] ev(1) assms show ?thesis
      by (simp add: earthquake_alert_outside)
  qed
qed

section \<open>The strongest event within the radius\<close>

lemma magnitude_quake_of [simp]: "magnitude (quake_of eq km) = mag eq"
  by (simp add: quake_of_def)

lemma nearest_loop_None:
  "nearest_loop acc eqs lat lon r = None \<longleftrightarrow>
     acc = None \<and> (\<forall>eq \<in> set eqs. \<not> within_radius lat lon r eq)"
  by (induction eqs arbitrary: acc)
     (auto simp: Let_def within_radius_def split: option.splits)

lemma nearest_loop_Some:
  assumes "nearest_loop acc eqs lat lon r = Some m"
  shows "(acc = Some m
          \<or> (\<exists>eq \<in> set eqs. within_radius lat lon r eq
                \<and> m = quake_of eq (getDistanceFromLatLonInKm lat lon (coord_lat eq) (coord_lon eq))))
         \<and> (\<forall>a. acc = Some a \<longrightarrow> to_number (magnitude a) \<le> to_number (magnitude m))
         \<and> (\<forall>eq \<in> set eqs. within_radius lat lon r eq \<longrightarrow>
               to_number (mag eq) \<le> to_number (magnitude m))"
  using assms
proof (induction eqs arbitrary: acc)
  case Nil
  then show ?case by simp
next
  case (Cons eq eqs)
  let ?km = "getDistanceFromLatLonInKm lat lon (coord_lat eq) (coord_lon eq)"
  let ?acc' = "if ?km \<le> r
               then (case acc of None \<Rightarrow> Some (quake_of eq ?km)
                     | Some a \<Rightarrow> if to_number (mag eq) > to_number (magnitude a)
                                then Some (quake_of eq ?km) else acc)
               else acc"
  from Cons.prems have run: "nearest_loop ?acc' eqs lat lon r = Some m"
    by (simp add: Let_def)
  note IH = Cons.IH [OF run]
  show ?case
  proof (cases "?km \<le> r")
    case False
    with IH show ?thesis by (auto simp: within_radius_def)
  next
    case inside: True
    show ?thesis
    proof (cases acc)
      case None
      with inside IH show ?thesis by (auto simp: within_radius_def)
    next
      case (Some a)
      show ?thesis
      proof (cases "to_number (mag eq) > to_number (magnitude a)")
        case True
        with inside Some IH show ?thesis by (auto simp: within_radius_def)
      next
        case False
        with inside Some IH show ?thesis by (auto simp: within_radius_def)
      qed
    qed
  qed
qed

text \<open>
  Two distances: a point to itself, and (0, 0) to its antipode (0, 180), half of the
  circumference of a sphere of radius 6371.
\<close>

lemma distance_to_itself: "getDistanceFromLatLonInKm lat lon lat lon = 0"
  by (simp add: getDistanceFromLatLonInKm_def deg2rad_def atan2_def)

lemma distance_antipodal: "getDistanceFromLatLonInKm 0 0 0 180 = 6371 * pi"
  by (simp add: getDistanceFromLatLonInKm_def deg2rad_def atan2_def)

lemma antipodal_far: "\<not> getDistanceFromLatLonInKm 0 0 0 180 \<le> 500"
proof -
  have "(2::real) \<le> pi" by (rule pi_ge_two)
  then have "(500::real) < 6371 * pi" by simp
  then show ?thesis by (simp add: distance_antipodal)
qed

text \<open>
  The two reference distances of the specification: a point matched against itself is at
  0 km, and (0, 0) and (0, 180) are half the circumference apart, \<open>6371 * pi\<close> km.
\<close>

theorem haversine_reference_distances:
  "getDistanceFromLatLonInKm lat lon lat lon = 0
   \<and> getDistanceFromLatLonInKm 0 0 0 180 = 6371 * pi"
  by (simp add: distance_to_itself distance_antipodal)

text \<open>
  The selection of the matcher, on real numbers. \<open>checkEarthquakesNearLocation\<close> returns
  none exactly when no candidate is within \<open>radiusKm\<close> of the target by the distance of
  \<open>getDistanceFromLatLonInKm\<close>; otherwise it returns the object built from a candidate
  within the radius whose magnitude is greatest among the candidates within the radius
  (a null magnitude counting as 0, as JavaScript's comparison takes it). The result
  depends on the four arguments only: the function reads no store and changes none.
  This describes the source as far as its rounded distance compares with the radius as
  the real distance does.
\<close>

theorem strongest_event_within_radius:
  "(checkEarthquakesNearLocation earthquakes lat lon radiusKm = None \<longleftrightarrow>
      (\<forall>eq \<in> set earthquakes. \<not> within_radius lat lon radiusKm eq))
   \<and> (\<forall>m. checkEarthquakesNearLocation earthquakes lat lon radiusKm = Some m \<longrightarrow>
         (\<exists>eq \<in> set earthquakes.
             within_radius lat lon radiusKm eq
             \<and> m = quake_of eq (getDistanceFromLatLonInKm lat lon (coord_lat eq) (coord_lon eq))
             \<and> (\<forall>eq' \<in> set earthquakes. within_radius lat lon radiusKm eq' \<longrightarrow>
                   to_number (mag eq') \<le> to_number (mag eq))))"
proof (intro conjI allI impI)
  show "checkEarthquakesNearLocation earthquakes lat lon radiusKm = None \<longleftrightarrow>
      (\<forall>eq \<in> set earthquakes. \<not> within_radius lat lon radiusKm eq)"
    by (simp add: checkEarthquakesNearLocation_def nearest_loop_None)
next
  fix m
  assume "checkEarthquakesNearLocation earthquakes lat lon radiusKm = Some m"
  then have "nearest_loop None earthquakes lat lon radiusKm = Some m"
    by (simp add: checkEarthquakesNearLocation_def)
  from nearest_loop_Some [OF this]
  obtain eq where eq: "eq \<in> set earthquakes" "within_radius lat lon radiusKm eq"
      "m = quake_of eq (getDistanceFromLatLonInKm lat lon (coord_lat eq) (coord_lon eq))"
    and best: "\<forall>eq' \<in> set earthquakes. within_radius lat lon radiusKm eq' \<longrightarrow>
                 to_number (mag eq') \<le> to_number (magnitude m)"
    by auto
  from eq(3) have "magnitude m = mag eq" by simp
  with eq best
  show "\<exists>eq \<in> set earthquakes.
             within_radius lat lon radiusKm eq
             \<and> m = quake_of eq (getDistanceFromLatLonInKm lat lon (coord_lat eq) (coord_lon eq))
             \<and> (\<forall>eq' \<in> set earthquakes. within_radius lat lon radiusKm eq' \<longrightarrow>
                   to_number (mag eq') \<le> to_number (mag eq))"
    by auto
qed

text \<open>
  The selection at an instance: of the two events at the target the stronger one is
  returned, although it comes last; the strongest event of the feed, at the antipode, is
  out of range.
\<close>

theorem strongest_event_within_radius_witness:
  "checkEarthquakesNearLocation [origin_feature, far_feature, origin_strong_feature] 0 0 500 =
     Some (quake_of origin_strong_feature 0)
   \<and> within_radius 0 0 500 origin_feature \<and> within_radius 0 0 500 origin_strong_feature
   \<and> \<not> within_radius 0 0 500 far_feature
   \<and> mag origin_feature = Some 5.2 \<and> mag far_feature = Some 7.5
   \<and> mag origin_strong_feature = Some 6.1
   \<and> (\<exists>eq \<in> set [origin_feature, far_feature, origin_strong_feature].
         within_radius 0 0 500 eq
         \<and> quake_of origin_strong_feature 0 =
             quake_of eq (getDistanceFromLatLonInKm 0 0 (coord_lat eq) (coord_lon eq))
         \<and> (\<forall>eq' \<in> set [origin_feature, far_feature, origin_strong_feature].
               within_radius 0 0 500 eq' \<longrightarrow> to_number (mag eq') \<le> to_number (mag eq)))"
proof -
  have far: "\<not> within_radius 0 0 500 far_feature"
    using antipodal_far by (simp add: within_radius_def far_feature_def)
  have near: "getDistanceFromLatLonInKm 0 0 (coord_lat origin_feature) (coord_lon origin_feature) = 0"
    "getDistanceFromLatLonInKm 0 0 (coord_lat origin_strong_feature)
       (coord_lon origin_strong_feature) = 0"
    using distance_to_itself [of 0 0] by (simp_all add: origin_feature_def origin_strong_feature_def)
  have far_km: "\<not> getDistanceFromLatLonInKm 0 0 (coord_lat far_feature) (coord_lon far_feature) \<le> 500"
    using antipodal_far by (simp add: far_feature_def)
  have mags: "mag origin_feature = Some 5.2" "mag far_feature = Some 7.5"
    "mag origin_strong_feature = Some 6.1"
    by (simp_all add: origin_feature_def far_feature_def origin_strong_feature_def)
  have ev: "checkEarthquakesNearLocation [origin_feature, far_feature, origin_strong_feature] 0 0 500 =
              Some (quake_of origin_strong_feature 0)"
    by (simp add: checkEarthquakesNearLocation_def Let_def near far_km mags to_number_def)
  have inr: "within_radius 0 0 500 origin_feature" "within_radius 0 0 500 origin_strong_feature"
    by (simp_all add: within_radius_def near)
  from strongest_event_within_radius
         [of "[origin_feature, far_feature, origin_strong_feature]" 0 0 500] ev
  have "\<exists>eq \<in> set [origin_feature, far_feature, origin_strong_feature].
         within_radius 0 0 500 eq
         \<and> quake_of origin_strong_feature 0 =
             quake_of eq (getDistanceFromLatLonInKm 0 0 (coord_lat eq) (coord_lon eq))
         \<and> (\<forall>eq' \<in> set [origin_feature, far_feature, origin_strong_feature].
               within_radius 0 0 500 eq' \<longrightarrow> to_number (mag eq') \<le> to_number (mag eq))"
    by blast
  with ev far inr mags show ?thesis by blast
qed

subsection \<open>A pair of points close to antipodal\<close>

lemma haversine_a_near_antipode:
  "sin (deg2rad (- 8 - 8) / 2) * sin (deg2rad (- 8 - 8) / 2)
   + cos (deg2rad 8) * cos (deg2rad (- 8)) * sin (deg2rad (180 - 0) / 2) * sin (deg2rad (180 - 0) / 2)
   = 1"
proof -
  have "deg2rad (- 8 - 8) / 2 = - deg2rad 8" by (simp add: deg2rad_def)
  moreover have "deg2rad (180 - 0) / 2 = pi / 2" by (simp add: deg2rad_def)
  moreover have "deg2rad (- 8) = - deg2rad 8" by (simp add: deg2rad_def)
  ultimately show ?thesis
    using sin_cos_squared_add [of "deg2rad 8"] by (simp add: power2_eq_square)
qed

lemma distance_near_antipode: "getDistanceFromLatLonInKm 8 0 (- 8) 180 = 6371 * pi"
  using haversine_a_near_antipode
  by (simp add: getDistanceFromLatLonInKm_def Let_def atan2_def)

text \<open>
  Claim C5 fails on the code where the rounding of doubles decides. For the target (8, 0),
  the one event at (-8, 180) and a radius of 26000 km, the real number \<open>a\<close> of the formula
  is exactly 1 and the distance is \<open>6371 * pi\<close> km, less than 26000: the event is within
  the radius and, on real numbers, it is what the matcher returns, as the claim has it.
  The source computes \<open>a = 1.0000000000000002\<close>, so that \<^verbatim>\<open>Math.sqrt(1 - a)\<close> and the
  distance are NaN and \<^verbatim>\<open>distance <= radiusKm\<close> is false: it returns null. The formula
  has no guard that keeps \<open>a\<close> at most 1.
\<close>

lemma near_antipode_on_real_numbers:
  "coord_lat antipode_feature = - 8 \<and> coord_lon antipode_feature = 180
   \<and> getDistanceFromLatLonInKm 8 0 (- 8) 180 = 6371 * pi
   \<and> 6371 * pi \<le> 26000
   \<and> checkEarthquakesNearLocation [antipode_feature] 8 0 26000 =
       Some (quake_of antipode_feature (6371 * pi))"
proof -
  have c: "coord_lat antipode_feature = - 8" "coord_lon antipode_feature = 180"
    by (simp_all add: antipode_feature_def)
  have "pi < 4" by (rule pi_less_4)
  then have le: "6371 * pi \<le> 26000" by simp
  with c distance_near_antipode
  have "checkEarthquakesNearLocation [antipode_feature] 8 0 26000 =
       Some (quake_of antipode_feature (6371 * pi))"
    by (simp add: checkEarthquakesNearLocation_def Let_def)
  with c le distance_near_antipode show ?thesis by simp
qed

section \<open>Facts about the example data\<close>

lemma select_rules_mixed_db:
  "select_rules mixed_db (loc_id dhaka) = [rain_medium, flood_after_quake]"
  by (simp add: select_rules_def mixed_db_def example_db_def dhaka_def rain_medium_def
      flood_after_quake_def earthquake_type_def flash_flood_def)

lemma evaluate_flood_after_quake: "evaluate_operator flood_after_quake 6.8"
  by (simp add: evaluate_operator_iff flood_after_quake_def)

lemma select_rules_example_db:
  "select_rules example_db 1 = [rain_medium, rain_high, quake_critical]"
  by (simp add: select_rules_def example_db_def rain_medium_def rain_high_def
      quake_critical_def earthquake_type_def flash_flood_def)

lemma select_rules_calm_db:
  "select_rules calm_db 1 = [rain_medium, rain_high, quake_critical]"
  using select_rules_example_db by (simp add: select_rules_def calm_db_def)

lemma triggers_rain:
  "triggers rain_medium (Some (reading mm)) e \<longleftrightarrow> 25 \<le> mm"
  "triggers rain_high (Some (reading mm)) e \<longleftrightarrow> 50 \<le> mm"
  by (simp_all add: triggers_def evaluate_operator_iff rain_medium_def rain_high_def reading_def)

lemma triggers_quake_critical:
  "triggers quake_critical w e \<longleftrightarrow> (\<exists>ev m. e = Some ev \<and> magnitude ev = Some m \<and> 6.5 \<le> m)"
  by (cases e) (auto simp: triggers_def evaluate_operator_iff quake_critical_def
      split: option.splits)

lemma nearest_near_feature:
  "checkEarthquakesNearLocation [near_feature] (latitude dhaka) (longitude dhaka) 500 =
     Some (quake_of near_feature 0)"
proof -
  have "getDistanceFromLatLonInKm (latitude dhaka) (longitude dhaka)
          (coord_lat near_feature) (coord_lon near_feature) = 0"
    using distance_to_itself [of "23.81" "90.41"] by (simp add: dhaka_def near_feature_def)
  then show ?thesis by (simp add: checkEarthquakesNearLocation_def Let_def)
qed

section \<open>At most one active alert per pair\<close>

text \<open>The invariant speaks of every pair, not only of the pairs of the rows.\<close>

lemma one_active_per_pair_iff:
  "one_active_per_pair as \<longleftrightarrow> (\<forall>d l. length (active_alerts as d l) \<le> 1)"
proof
  assume inv: "one_active_per_pair as"
  show "\<forall>d l. length (active_alerts as d l) \<le> 1"
  proof (intro allI)
    fix d l
    show "length (active_alerts as d l) \<le> 1"
    proof (cases "active_alerts as d l")
      case Nil
      then show ?thesis by simp
    next
      case (Cons a rest)
      then have "a \<in> set (active_alerts as d l)" by simp
      then have "a \<in> set as" "is_active a" "disaster_id a = d" "location_id a = l"
        by (auto simp: active_alerts_def)
      with inv show ?thesis by (auto simp: one_active_per_pair_def)
    qed
  qed
next
  assume "\<forall>d l. length (active_alerts as d l) \<le> 1"
  then show "one_active_per_pair as" by (simp add: one_active_per_pair_def)
qed

text \<open>Deactivation keeps the invariant.\<close>

lemma deactivate_rows_inv:
  "one_active_per_pair as \<Longrightarrow> one_active_per_pair (deactivate_rows d l as)"
  unfolding one_active_per_pair_iff by (simp add: active_alerts_deactivate_rows)

text \<open>An insertion after the deactivation of the row's pair keeps it.\<close>

lemma supersede_inv:
  assumes "one_active_per_pair as" "disaster_id a = d" "location_id a = l"
  shows "one_active_per_pair (deactivate_rows d l as @ [a])"
  using assms unfolding one_active_per_pair_iff
  by (simp add: active_alerts_append active_alerts_deactivate_rows active_alerts_single)

text \<open>An insertion for a pair without active alert keeps it.\<close>

lemma open_inv:
  assumes "one_active_per_pair as" "active_alerts as (disaster_id a) (location_id a) = []"
  shows "one_active_per_pair (as @ [a])"
  using assms unfolding one_active_per_pair_iff
  by (simp add: active_alerts_append active_alerts_single)

lemma weather_alert_inv:
  assumes "one_active_per_pair (alerts s)"
  shows "one_active_per_pair (alerts (weather_alert location rule v s))"
  using assms by (simp add: weather_alert_def Let_def supersede_inv open_inv)

lemma earthquake_alert_inv:
  assumes "one_active_per_pair (alerts s)"
  shows "one_active_per_pair (alerts (earthquake_alert location rule v e s))"
  using assms by (simp add: earthquake_alert_def supersede_inv)

lemma process_rule_inv:
  assumes "one_active_per_pair (alerts (store c))"
  shows "one_active_per_pair (alerts (store (process_rule location w e rule c)))"
  using assms
  by (simp add: process_rule_def Let_def weather_alert_inv earthquake_alert_inv
      split: option.split)

lemma for_each_rule_inv:
  "one_active_per_pair (alerts (store c)) \<Longrightarrow>
   one_active_per_pair (alerts (store (for_each_rule location w e rules c)))"
  by (induction rules arbitrary: c) (simp_all add: process_rule_inv)

text \<open>The auto-deactivation pass only deactivates.\<close>

lemma auto_deactivation_inv:
  "one_active_per_pair (alerts s) \<Longrightarrow>
   one_active_per_pair (alerts (auto_deactivation location trig ids s))"
  by (induction ids arbitrary: s) (simp_all add: deactivate_rows_inv)

text \<open>
  Claim C1. For every call of \<open>checkRulesAndAlert\<close>, with any location, weather data and
  earthquake data: if at most one alert row is active for each (disaster, location) pair
  before the call, then at most one is active for each pair after it. Each insertion
  follows the deactivation of the pair's active alerts (\<open>supersede_inv\<close>) or finds the pair
  without active alert (\<open>open_inv\<close>), and the auto-deactivation pass only deactivates
  (\<open>auto_deactivation_inv\<close>).
\<close>

theorem one_active_alert_per_pair_preserved:
  assumes "one_active_per_pair (alerts s)"
  shows "one_active_per_pair (alerts (checkRulesAndAlert location weatherData earthquakeData s))"
  using assms
  by (simp add: checkRulesAndAlert_def run_rules_def Let_def for_each_rule_inv
      auto_deactivation_inv)

theorem one_active_alert_per_pair_preserved_witness:
  "one_active_per_pair (alerts example_db)
   \<and> one_active_per_pair
       (alerts (checkRulesAndAlert dhaka (Some (reading 60)) (Some strong_quake) example_db))"
proof -
  have before: "one_active_per_pair (alerts example_db)"
    by (simp add: one_active_per_pair_def example_db_def active_alerts_def)
  from before one_active_alert_per_pair_preserved [OF before] show ?thesis by simp
qed

section \<open>The operator\<close>

text \<open>
  Claim C6. For every rule whose condition resolves to a non-null current value \<open>v\<close>, the
  rule triggers (its disaster is added to \<open>triggeredDisasterIds\<close>) exactly when \<open>v op T\<close>
  holds for the rule's operator and threshold \<open>T\<close>, compared exactly; for the operator
  \<open>>=\<close> a value equal to \<open>T\<close> triggers and a value below \<open>T\<close> does not.
\<close>

theorem operator_applied_exactly:
  assumes "currentValue_of (weather_condition rule) weatherData earthquakeData = Some v"
  shows "(evaluate_operator rule v \<longleftrightarrow>
            (case operator rule of
               Gt \<Rightarrow> v > threshold_value rule
             | Lt \<Rightarrow> v < threshold_value rule
             | Ge \<Rightarrow> v \<ge> threshold_value rule
             | Le \<Rightarrow> v \<le> threshold_value rule))
         \<and> triggeredDisasterIds (process_rule location weatherData earthquakeData rule c) =
             (if evaluate_operator rule v
              then insert (rule_disaster_id rule) (triggeredDisasterIds c)
              else triggeredDisasterIds c)
         \<and> (operator rule = Ge \<longrightarrow>
               (v = threshold_value rule \<longrightarrow> evaluate_operator rule v)
               \<and> (v < threshold_value rule \<longrightarrow> \<not> evaluate_operator rule v))"
  using assms
  by (simp add: evaluate_operator_iff process_rule_triggered triggers_def)

text \<open>
  Claim C6 at an instance: the rule "rain_sum >= 25" with the values 25 and 24.9.
\<close>

theorem operator_applied_exactly_witness:
  "currentValue_of (weather_condition rain_medium) (Some (reading 25)) None = Some 25
   \<and> threshold_value rain_medium = 25 \<and> operator rain_medium = Ge
   \<and> evaluate_operator rain_medium 25
   \<and> triggeredDisasterIds
       (process_rule dhaka (Some (reading 25)) None rain_medium
          \<lparr>store = example_db, triggeredDisasterIds = {}, earthquakeDisasterIds = {}\<rparr>) = {2}
   \<and> currentValue_of (weather_condition rain_medium) (Some (reading 24.9)) None = Some 24.9
   \<and> \<not> evaluate_operator rain_medium 24.9"
proof -
  let ?c = "\<lparr>store = example_db, triggeredDisasterIds = {}, earthquakeDisasterIds = {}\<rparr>"
  have at: "currentValue_of (weather_condition rain_medium) (Some (reading 25)) None = Some 25"
    by (simp add: rain_medium_def reading_def)
  have below: "currentValue_of (weather_condition rain_medium) (Some (reading 24.9)) None = Some 24.9"
    by (simp add: rain_medium_def reading_def)
  have r: "threshold_value rain_medium = 25" "operator rain_medium = Ge"
    "rule_disaster_id rain_medium = 2"
    by (simp_all add: rain_medium_def)
  from operator_applied_exactly [OF at, of dhaka ?c] operator_applied_exactly [OF below, of dhaka ?c]
    at below r
  show ?thesis by simp
qed

section \<open>Dedup of a point event\<close>

lemma alerts_with_external_id_nonempty:
  "alerts_with_external_id as x lid \<noteq> [] \<longleftrightarrow>
     (\<exists>a \<in> set as. external_id a = Some x \<and> location_id a = lid)"
  by (auto simp: alerts_with_external_id_def filter_empty_conv)

lemma earthquake_alert_dedup:
  assumes "a \<in> set (alerts s)" "external_id a = Some (quake_id ev)" "location_id a = loc_id location"
  shows "earthquake_alert location rule v ev s = s"
  using assms alerts_with_external_id_nonempty [of "alerts s" "quake_id ev" "loc_id location"]
  by (auto simp: earthquake_alert_def)

text \<open>
  Claim C10. The dedup check matches any alert row of the location that carries the
  event's external id, whatever the row's active flag and disaster: when such a row
  exists, an earthquake rule, triggered or not, leaves the store as it is; it inserts
  nothing and deactivates nothing.
\<close>

theorem dedup_ignores_active_flag_and_disaster:
  assumes "a \<in> set (alerts (store c))"
    and "external_id a = Some (quake_id ev)"
    and "location_id a = loc_id location"
    and "weather_condition rule = earthquake_magnitude"
  shows "alerts_with_external_id (alerts (store c)) (quake_id ev) (loc_id location) \<noteq> []
         \<and> store (process_rule location weatherData (Some ev) rule c) = store c"
proof
  from assms(1-3) show "alerts_with_external_id (alerts (store c)) (quake_id ev) (loc_id location) \<noteq> []"
    by (auto simp: alerts_with_external_id_nonempty)
next
  show "store (process_rule location weatherData (Some ev) rule c) = store c"
  proof (cases "triggers rule weatherData (Some ev)")
    case False
    then show ?thesis by (rule process_rule_not_triggered)
  next
    case True
    with assms(4) obtain v where v: "magnitude ev = Some v" "evaluate_operator rule v"
      by (auto simp: triggers_def split: option.splits)
    from process_rule_earthquake [OF assms(4) v]
      earthquake_alert_dedup [OF assms(1-3)]
    show ?thesis by simp
  qed
qed

text \<open>
  Claim C10 at an instance: the only row with the event's id is inactive and belongs to
  Flash Flood; the triggered rule of Earthquake changes nothing.
\<close>

theorem dedup_ignores_active_flag_and_disaster_witness:
  "stale_alert \<in> set (alerts stale_db) \<and> \<not> is_active stale_alert
   \<and> disaster_id stale_alert \<noteq> rule_disaster_id quake_critical
   \<and> triggers quake_critical None (Some strong_quake)
   \<and> store (process_rule dhaka None (Some strong_quake) quake_critical
              \<lparr>store = stale_db, triggeredDisasterIds = {}, earthquakeDisasterIds = {}\<rparr>) =
       stale_db"
proof -
  let ?c = "\<lparr>store = stale_db, triggeredDisasterIds = {}, earthquakeDisasterIds = {}\<rparr>"
  have h1: "stale_alert \<in> set (alerts (store ?c))" by (simp add: stale_db_def)
  have h2: "external_id stale_alert = Some (quake_id strong_quake)"
    by (simp add: stale_alert_def strong_quake_def)
  have h3: "location_id stale_alert = loc_id dhaka"
    by (simp add: stale_alert_def dhaka_def)
  have h4: "weather_condition quake_critical = earthquake_magnitude"
    by (simp add: quake_critical_def)
  have t: "triggers quake_critical None (Some strong_quake)"
    by (simp add: triggers_def evaluate_operator_iff quake_critical_def strong_quake_def)
  have o: "\<not> is_active stale_alert" "disaster_id stale_alert \<noteq> rule_disaster_id quake_critical"
    by (simp_all add: stale_alert_def quake_critical_def)
  from dedup_ignores_active_flag_and_disaster [OF h1 h2 h3 h4, of None] h1 t o
  show ?thesis by simp
qed

lemma process_rule_redelivered:
  assumes "a \<in> set (alerts (store c))" "external_id a = Some (quake_id ev)"
    "location_id a = loc_id location"
  shows "store (process_rule location None (Some ev) rule c) = store c"
proof (cases "triggers rule None (Some ev)")
  case False
  then show ?thesis by (rule process_rule_not_triggered)
next
  case True
  have eq: "weather_condition rule = earthquake_magnitude"
  proof (rule ccontr)
    assume "weather_condition rule \<noteq> earthquake_magnitude"
    then have "currentValue_of (weather_condition rule) None (Some ev) = None"
      by (simp add: currentValue_weather_None ruleTarget_cases)
    with True show False by (simp add: triggers_def)
  qed
  with True obtain v where v: "magnitude ev = Some v" "evaluate_operator rule v"
    by (auto simp: triggers_def split: option.splits)
  from process_rule_earthquake [OF eq v] earthquake_alert_dedup [OF assms]
  show ?thesis by simp
qed

lemma for_each_rule_redelivered:
  assumes "a \<in> set (alerts (store c))" "external_id a = Some (quake_id ev)"
    "location_id a = loc_id location"
  shows "store (for_each_rule location None (Some ev) rules c) = store c"
  using assms
proof (induction rules arbitrary: c)
  case Nil
  then show ?case by simp
next
  case (Cons rule rules)
  have step: "store (process_rule location None (Some ev) rule c) = store c"
    using Cons.prems by (rule process_rule_redelivered)
  with Cons.prems have "a \<in> set (alerts (store (process_rule location None (Some ev) rule c)))"
    by simp
  from Cons.IH [OF this Cons.prems(2,3)] step show ?case by simp
qed








section \<open>Several earthquake rules and one event\<close>

lemma for_each_rule_quiet_store:
  "\<forall>r \<in> set rules. \<not> triggers r w e \<Longrightarrow>
   store (for_each_rule location w e rules c) = store c"
  by (induction rules arbitrary: c) (simp_all add: process_rule_not_triggered)

lemma triggers_without_weather:
  assumes "triggers rule None e"
  shows "weather_condition rule = earthquake_magnitude"
proof (rule ccontr)
  assume "weather_condition rule \<noteq> earthquake_magnitude"
  then have "currentValue_of (weather_condition rule) None e = None"
    by (simp add: currentValue_weather_None ruleTarget_cases)
  with assms show False by (simp add: triggers_def)
qed

text \<open>
  In a cycle without weather data, when the event's id is not yet in the table of the
  location and earthquake rules trigger, only the first triggering rule of the loop
  writes: its pair's active alerts are deactivated and its alert is inserted; every later
  triggering rule finds the row just inserted and is deduplicated.
\<close>

theorem first_triggering_earthquake_rule_inserts:
  assumes "alerts_with_external_id (alerts s) (quake_id ev) (loc_id location) = []"
    and "trig = [r \<leftarrow> select_rules s (loc_id location). triggers r None (Some ev)]"
    and "trig \<noteq> []"
    and "magnitude ev = Some v"
  shows "alerts (checkRulesAndAlert location None (Some ev) s) =
               deactivate_rows (rule_disaster_id (hd trig)) (loc_id location) (alerts s)
               @ [new_alert (alerts_auto_increment s) (rule_disaster_id (hd trig)) (loc_id location)
                    (''Automated Alert: ''
                       @ or_else (message_template (hd trig)) ''Seismic Event Detected'')
                    (Seismic_text v (place ev) (threshold_value (hd trig)))
                    (or_else (Some (severity_level (hd trig))) ''Medium'') ''System''
                    (Some (quake_id ev))]"
proof -
  let ?rules = "select_rules s (loc_id location)"
  let ?P = "\<lambda>r. triggers r None (Some ev)"
  let ?init = "\<lparr>store = s, triggeredDisasterIds = {}, earthquakeDisasterIds = {}\<rparr>"
  from assms(2,3) have "\<exists>x \<in> set ?rules. ?P x" by (auto simp: filter_empty_conv)
  from split_list_first_prop [OF this]
  obtain pre r post where split: "?rules = pre @ r # post" and r: "?P r"
    and quiet: "\<forall>x \<in> set pre. \<not> ?P x"
    by blast
  from quiet have "filter ?P pre = []" by (simp add: filter_empty_conv)
  with split r have hd: "hd trig = r" by (simp add: assms(2))
  from r have eq: "weather_condition r = earthquake_magnitude"
    by (rule triggers_without_weather)
  with r assms(4) have v: "magnitude ev = Some v" "evaluate_operator r v"
    by (simp_all add: triggers_def)
  define c1 where "c1 = for_each_rule location None (Some ev) pre ?init"
  define c2 where "c2 = process_rule location None (Some ev) r c1"
  have c1: "store c1 = s"
    unfolding c1_def using quiet by (simp add: for_each_rule_quiet_store)
  have "store c2 = earthquake_alert location r v ev s"
    unfolding c2_def using process_rule_earthquake [OF eq v] c1 by simp
  with assms(1) have c2: "alerts (store c2) =
      deactivate_rows (rule_disaster_id r) (loc_id location) (alerts s)
      @ [new_alert (alerts_auto_increment s) (rule_disaster_id r) (loc_id location)
           (''Automated Alert: '' @ or_else (message_template r) ''Seismic Event Detected'')
           (Seismic_text v (place ev) (threshold_value r))
           (or_else (Some (severity_level r)) ''Medium'') ''System'' (Some (quake_id ev))]"
    by (simp add: earthquake_alert_def)
  let ?row = "new_alert (alerts_auto_increment s) (rule_disaster_id r) (loc_id location)
           (''Automated Alert: '' @ or_else (message_template r) ''Seismic Event Detected'')
           (Seismic_text v (place ev) (threshold_value r))
           (or_else (Some (severity_level r)) ''Medium'') ''System'' (Some (quake_id ev))"
  have "?row \<in> set (alerts (store c2))" unfolding c2 by simp
  then have "store (for_each_rule location None (Some ev) post c2) = store c2"
    by (rule for_each_rule_redelivered) simp_all
  moreover have "run_rules location None (Some ev) s = for_each_rule location None (Some ev) post c2"
    unfolding run_rules_def c2_def c1_def
    by (subst split) (simp add: for_each_rule_append)
  ultimately have "alerts (checkRulesAndAlert location None (Some ev) s) = alerts (store c2)"
    by (simp add: checkRulesAndAlert_def)
  with c2 hd show ?thesis by simp
qed

text \<open>
  At an instance: the rules "earthquake_magnitude >= 3, Low" and ">= 6.5, Critical" and an
  event of magnitude 6.8 leave one alert, of severity Low.
\<close>

theorem first_triggering_earthquake_rule_inserts_witness:
  "alerts_with_external_id (alerts tiered_db) (quake_id strong_quake) (loc_id dhaka) = []
   \<and> [r \<leftarrow> select_rules tiered_db (loc_id dhaka). triggers r None (Some strong_quake)] =
       [quake_low, quake_critical]
   \<and> alerts (checkRulesAndAlert dhaka None (Some strong_quake) tiered_db) =
       [new_alert 2 1 1 ''Automated Alert: Minor seismic activity detected''
          (Seismic_text 6.8 ''40 km N of Dhaka'' 3) ''Low'' ''System'' (Some ''us7000test'')]"
proof -
  have l: "loc_id dhaka = 1" by (simp add: dhaka_def)
  have rules: "select_rules tiered_db 1 = [quake_low, quake_critical]"
    by (simp add: select_rules_def tiered_db_def calm_db_def example_db_def quake_low_def
        quake_critical_def earthquake_type_def flash_flood_def)
  have t: "triggers quake_low None (Some strong_quake)"
    "triggers quake_critical None (Some strong_quake)"
    by (simp_all add: triggers_def evaluate_operator_iff quake_low_def quake_critical_def
        strong_quake_def)
  have h1: "alerts_with_external_id (alerts tiered_db) (quake_id strong_quake) (loc_id dhaka) = []"
    by (simp add: alerts_with_external_id_def tiered_db_def calm_db_def)
  have h2: "[quake_low, quake_critical] =
      [r \<leftarrow> select_rules tiered_db (loc_id dhaka). triggers r None (Some strong_quake)]"
    by (simp add: l rules t)
  have h3: "[quake_low, quake_critical] \<noteq> []" by simp
  have s: "alerts tiered_db = []" "alerts_auto_increment tiered_db = 2"
    by (simp_all add: tiered_db_def calm_db_def example_db_def)
  have q: "magnitude strong_quake = Some 6.8" "place strong_quake = ''40 km N of Dhaka''"
    "quake_id strong_quake = ''us7000test''"
    by (simp_all add: strong_quake_def)
  have r: "rule_disaster_id quake_low = 1" "message_template quake_low = Some ''Minor seismic activity detected''"
    "threshold_value quake_low = 3" "severity_level quake_low = ''Low''"
    by (simp_all add: quake_low_def)
  from first_triggering_earthquake_rule_inserts [OF h1 h2 h3 q(1)] h1 h2 [symmetric]
  show ?thesis by (simp add: s q r l deactivate_rows_def or_else_def)
qed

section \<open>The auto-deactivation pass\<close>

lemma auto_deactivation_stays_clear:
  "active_alerts (alerts s) d (loc_id location) = [] \<Longrightarrow>
   active_alerts (alerts (auto_deactivation location trig ids s)) d (loc_id location) = []"
  by (induction ids arbitrary: s) (simp_all add: active_alerts_deactivate_rows)

lemma auto_deactivation_clears:
  "d \<in> set ids \<Longrightarrow> d \<notin> trig \<Longrightarrow>
   active_alerts (alerts (auto_deactivation location trig ids s)) d (loc_id location) = []"
proof (induction ids arbitrary: s)
  case Nil
  then show ?case by simp
next
  case (Cons x ids)
  show ?case
  proof (cases "x = d")
    case True
    with Cons.prems show ?thesis
      by (simp add: auto_deactivation_stays_clear active_alerts_deactivate_rows_same)
  next
    case False
    with Cons.prems have "d \<in> set ids" by simp
    from Cons.IH [OF this Cons.prems(2)] show ?thesis by simp
  qed
qed

lemma auto_deactivation_triggered_active:
  "d \<in> trig \<Longrightarrow>
   active_alerts (alerts (auto_deactivation location trig ids s)) d lid =
   active_alerts (alerts s) d lid"
proof (induction ids arbitrary: s)
  case Nil
  then show ?case by simp
next
  case (Cons x ids)
  then show ?case by (auto simp: active_alerts_deactivate_rows)
qed

lemma auto_deactivation_no_alerts:
  "alerts s = [] \<Longrightarrow> alerts (auto_deactivation location trig ids s) = []"
  by (induction ids arbitrary: s) (simp_all add: active_alerts_def)

text \<open>
  Claim C3. For every call with non-null weather data: a disaster that has a
  continuous-signal rule applicable to the location, and none of whose applicable rules
  produced a triggered outcome in the cycle, has no active alert for the location after
  the call.
\<close>

theorem auto_clear_deactivates_untriggered:
  assumes "r \<in> set (select_rules s (loc_id location))"
    and "weather_condition r \<noteq> earthquake_magnitude"
    and "\<forall>r' \<in> set (select_rules s (loc_id location)).
           rule_disaster_id r' = rule_disaster_id r \<longrightarrow> \<not> triggers r' (Some wd) earthquakeData"
  shows "active_alerts (alerts (checkRulesAndAlert location (Some wd) earthquakeData s))
           (rule_disaster_id r) (loc_id location) = []"
proof -
  let ?rules = "select_rules s (loc_id location)"
  let ?c = "run_rules location (Some wd) earthquakeData s"
  from assms(3) have "rule_disaster_id r \<notin> triggeredDisasterIds ?c"
    by (auto simp: run_rules_def for_each_rule_triggered)
  moreover from assms(1,2) have "rule_disaster_id r \<in> set (weatherDisasterIds ?rules)"
    by (auto simp: weatherDisasterIds_def)
  ultimately show ?thesis
    by (simp add: checkRulesAndAlert_def Let_def auto_deactivation_clears)
qed

text \<open>
  Claim C3 at the scenario of the specification: an active Medium alert of Flash Flood,
  then a cycle with rain 0.
\<close>

theorem auto_clear_deactivates_untriggered_witness:
  "rain_medium \<in> set (select_rules example_db (loc_id dhaka))
   \<and> active_alerts (alerts example_db) (rule_disaster_id rain_medium) (loc_id dhaka) = [flood_alert]
   \<and> active_alerts (alerts (checkRulesAndAlert dhaka (Some (reading 0)) None example_db))
       (rule_disaster_id rain_medium) (loc_id dhaka) = []"
proof -
  have l: "loc_id dhaka = 1" by (simp add: dhaka_def)
  have h1: "rain_medium \<in> set (select_rules example_db (loc_id dhaka))"
    by (simp add: l select_rules_example_db)
  have h2: "weather_condition rain_medium \<noteq> earthquake_magnitude"
    by (simp add: rain_medium_def)
  have h3: "\<forall>r' \<in> set (select_rules example_db (loc_id dhaka)).
              rule_disaster_id r' = rule_disaster_id rain_medium \<longrightarrow>
              \<not> triggers r' (Some (reading 0)) None"
    by (simp add: l select_rules_example_db triggers_rain triggers_quake_critical)
  have before: "active_alerts (alerts example_db) (rule_disaster_id rain_medium) (loc_id dhaka) =
                  [flood_alert]"
    by (simp add: active_alerts_def example_db_def flood_alert_def rain_medium_def l)
  from auto_clear_deactivates_untriggered [OF h1 h2 h3] h1 before show ?thesis by simp
qed

section \<open>A cycle without weather data\<close>

lemma process_rule_weather_skipped:
  "weather_condition rule \<noteq> earthquake_magnitude \<Longrightarrow> process_rule location None e rule c = c"
  by (simp add: process_rule_def Let_def ruleTarget_cases)

lemma for_each_rule_without_weather:
  "for_each_rule location None e rules c =
   for_each_rule location None e (earthquake_rules rules) c"
  by (induction rules arbitrary: c)
     (simp_all add: earthquake_rules_def process_rule_weather_skipped)

lemma for_each_rule_outside_earthquake_rules:
  assumes "set rules \<subseteq> set all_rules"
  shows "filter (outside_earthquake_rules all_rules (loc_id location))
           (alerts (store (for_each_rule location None e (earthquake_rules rules) c))) =
         filter (outside_earthquake_rules all_rules (loc_id location)) (alerts (store c))"
  using assms
proof (induction rules arbitrary: c)
  case Nil
  then show ?case by (simp add: earthquake_rules_def)
next
  case (Cons rule rules)
  show ?case
  proof (cases "weather_condition rule = earthquake_magnitude")
    case False
    with Cons show ?thesis by (simp add: earthquake_rules_def)
  next
    case True
    with Cons.prems have "rule_disaster_id rule \<in> set (map rule_disaster_id (earthquake_rules all_rules))"
      by (auto simp: earthquake_rules_def)
    then have "filter (outside_earthquake_rules all_rules (loc_id location))
                 (alerts (store (process_rule location None e rule c))) =
               filter (outside_earthquake_rules all_rules (loc_id location)) (alerts (store c))"
      by (intro process_rule_outside) (simp add: outside_earthquake_rules_def)
    with Cons True show ?thesis by (simp add: earthquake_rules_def)
  qed
qed

lemma no_data_no_trigger: "\<not> triggers rule None None"
  by (cases "weather_condition rule") (simp_all add: triggers_def)

lemma no_data_no_change: "checkRulesAndAlert location None None s = s"
  by (simp add: checkRulesAndAlert_def run_rules_def for_each_rule_quiet_store no_data_no_trigger)

text \<open>
  Claim C4, amended. In a cycle in which the weather data is null, the auto-deactivation
  pass is not attempted and no weather rule's trigger path runs: the call does what the
  loop over the earthquake rules alone does. So every alert row outside the pairs
  (disaster of an applicable earthquake rule, this location) is left as it is; an alert
  of a disaster without applicable earthquake rule is never deactivated. With no event
  either, the call changes nothing.
\<close>

theorem weather_absent_only_earthquake_rules_act:
  "checkRulesAndAlert location None earthquakeData s =
     store (for_each_rule location None earthquakeData
              (earthquake_rules (select_rules s (loc_id location)))
              \<lparr>store = s, triggeredDisasterIds = {}, earthquakeDisasterIds = {}\<rparr>)
   \<and> filter (outside_earthquake_rules (select_rules s (loc_id location)) (loc_id location))
        (alerts (checkRulesAndAlert location None earthquakeData s)) =
     filter (outside_earthquake_rules (select_rules s (loc_id location)) (loc_id location))
        (alerts s)
   \<and> checkRulesAndAlert location None None s = s"
proof -
  have eq: "checkRulesAndAlert location None earthquakeData s =
     store (for_each_rule location None earthquakeData
              (earthquake_rules (select_rules s (loc_id location)))
              \<lparr>store = s, triggeredDisasterIds = {}, earthquakeDisasterIds = {}\<rparr>)"
    using for_each_rule_without_weather [of location earthquakeData "select_rules s (loc_id location)"]
    by (simp add: checkRulesAndAlert_def run_rules_def)
  have frame: "filter (outside_earthquake_rules (select_rules s (loc_id location)) (loc_id location))
        (alerts (checkRulesAndAlert location None earthquakeData s)) =
     filter (outside_earthquake_rules (select_rules s (loc_id location)) (loc_id location))
        (alerts s)"
    unfolding eq
    using for_each_rule_outside_earthquake_rules
      [of "select_rules s (loc_id location)" "select_rules s (loc_id location)" location earthquakeData
          "\<lparr>store = s, triggeredDisasterIds = {}, earthquakeDisasterIds = {}\<rparr>"]
    by simp
  from eq frame no_data_no_change show ?thesis by (intro conjI)
qed

lemma quake_only_example:
  "filter (outside_earthquake_rules (select_rules example_db (loc_id dhaka)) (loc_id dhaka))
     (alerts example_db) = [flood_alert]"
proof -
  have l: "loc_id dhaka = 1" by (simp add: dhaka_def)
  have q: "map rule_disaster_id (earthquake_rules [rain_medium, rain_high, quake_critical]) = [1]"
    by (simp add: earthquake_rules_def rain_medium_def rain_high_def quake_critical_def)
  have a: "alerts example_db = [flood_alert]" by (simp add: example_db_def)
  have "outside_earthquake_rules [rain_medium, rain_high, quake_critical] 1 flood_alert"
    by (simp add: outside_earthquake_rules_def q flood_alert_def)
  then show ?thesis by (simp add: l select_rules_example_db a)
qed

text \<open>
  Claim C4, amended, at an instance: Flash Flood has no earthquake rule; its alert
  stays as it is in a cycle without weather data that triggers the rule of Earthquake.
\<close>

theorem weather_absent_only_earthquake_rules_act_witness:
  "filter (outside_earthquake_rules (select_rules example_db (loc_id dhaka)) (loc_id dhaka))
     (alerts (checkRulesAndAlert dhaka None (Some strong_quake) example_db)) = [flood_alert]
   \<and> is_active flood_alert"
proof -
  from weather_absent_only_earthquake_rules_act [of dhaka "Some strong_quake" example_db]
  have "filter (outside_earthquake_rules (select_rules example_db (loc_id dhaka)) (loc_id dhaka))
          (alerts (checkRulesAndAlert dhaka None (Some strong_quake) example_db)) =
        filter (outside_earthquake_rules (select_rules example_db (loc_id dhaka)) (loc_id dhaka))
          (alerts example_db)"
    by blast
  moreover have "is_active flood_alert" by (simp add: flood_alert_def)
  ultimately show ?thesis by (simp only: quake_only_example simp_thms)
qed

text \<open>
  Claim C4 as stated fails. Flash Flood has the continuous-signal rule "rain_sum >= 25"
  and an earthquake rule; its alert is active; the cycle has no weather data and an event
  of magnitude 6.8. The earthquake rule triggers and its path deactivates the alert of
  Flash Flood before it inserts its own.
\<close>

theorem weather_absent_alert_deactivated:
  "alerts mixed_db = [flood_alert] \<and> is_active flood_alert
   \<and> disaster_id flood_alert = rule_disaster_id rain_medium
   \<and> location_id flood_alert = loc_id dhaka
   \<and> select_rules mixed_db (loc_id dhaka) = [rain_medium, flood_after_quake]
   \<and> weather_condition rain_medium = rain_sum
   \<and> alerts (checkRulesAndAlert dhaka None (Some strong_quake) mixed_db) =
       [flood_alert\<lparr>is_active := False\<rparr>,
        new_alert 2 2 1 ''Automated Alert: Embankment failure risk''
          (Seismic_text 6.8 ''40 km N of Dhaka'' 6.5) ''Critical'' ''System''
          (Some ''us7000test'')]"
proof -
  let ?init = "\<lparr>store = mixed_db, triggeredDisasterIds = {}, earthquakeDisasterIds = {}\<rparr>"
  have skip: "process_rule dhaka None (Some strong_quake) rain_medium ?init = ?init"
    by (rule process_rule_weather_skipped) (simp add: rain_medium_def)
  have "store (process_rule dhaka None (Some strong_quake) flood_after_quake ?init) =
        earthquake_alert dhaka flood_after_quake 6.8 strong_quake mixed_db"
    using process_rule_earthquake [of flood_after_quake strong_quake "6.8" dhaka None ?init]
      evaluate_flood_after_quake
    by (simp add: flood_after_quake_def strong_quake_def)
  moreover have "alerts (earthquake_alert dhaka flood_after_quake 6.8 strong_quake mixed_db) =
       [flood_alert\<lparr>is_active := False\<rparr>,
        new_alert 2 2 1 ''Automated Alert: Embankment failure risk''
          (Seismic_text 6.8 ''40 km N of Dhaka'' 6.5) ''Critical'' ''System''
          (Some ''us7000test'')]"
    by (simp add: earthquake_alert_def alerts_with_external_id_def deactivate_rows_def
        mixed_db_def example_db_def flood_alert_def strong_quake_def dhaka_def
        flood_after_quake_def or_else_def)
  ultimately have "alerts (checkRulesAndAlert dhaka None (Some strong_quake) mixed_db) =
       [flood_alert\<lparr>is_active := False\<rparr>,
        new_alert 2 2 1 ''Automated Alert: Embankment failure risk''
          (Seismic_text 6.8 ''40 km N of Dhaka'' 6.5) ''Critical'' ''System''
          (Some ''us7000test'')]"
    by (simp add: checkRulesAndAlert_def run_rules_def select_rules_mixed_db skip)
  moreover have "alerts mixed_db = [flood_alert]"
    by (simp add: mixed_db_def example_db_def)
  moreover have "is_active flood_alert" "disaster_id flood_alert = rule_disaster_id rain_medium"
    "location_id flood_alert = loc_id dhaka" "weather_condition rain_medium = rain_sum"
    by (simp_all add: flood_alert_def rain_medium_def dhaka_def)
  ultimately show ?thesis using select_rules_mixed_db by simp
qed

section \<open>Several triggering rules of one disaster\<close>

lemma weather_alert_active:
  "active_alerts (alerts (weather_alert location rule v s)) (rule_disaster_id rule) (loc_id location) =
     [new_alert (alerts_auto_increment (if active_alerts (alerts s) (rule_disaster_id rule) (loc_id location) \<noteq> []
         then deactivate (rule_disaster_id rule) (loc_id location) s else s))
        (rule_disaster_id rule) (loc_id location)
        (''Automated Alert: '' @ or_else (message_template rule) ''Hazard Detected'')
        (Hazard_text (weather_condition rule) v (threshold_value rule))
        (or_else (Some (severity_level rule)) ''Medium'') ''System'' None]"
  by (simp add: weather_alert_def Let_def active_alerts_append active_alerts_single
      active_alerts_deactivate_rows_same)

lemma process_rule_other_pair_active:
  assumes "rule_disaster_id rule \<noteq> d"
  shows "active_alerts (alerts (store (process_rule location w e rule c))) d lid =
         active_alerts (alerts (store c)) d lid"
  unfolding active_alerts_def
  using assms by (intro process_rule_outside) simp

lemma for_each_rule_quiet_active:
  assumes "\<forall>r \<in> set rules. \<not> (rule_disaster_id r = d \<and> triggers r w e)"
  shows "active_alerts (alerts (store (for_each_rule location w e rules c))) d lid =
         active_alerts (alerts (store c)) d lid"
  using assms
proof (induction rules arbitrary: c)
  case Nil
  then show ?case by simp
next
  case (Cons rule rules)
  have "active_alerts (alerts (store (process_rule location w e rule c))) d lid =
        active_alerts (alerts (store c)) d lid"
  proof (cases "rule_disaster_id rule = d")
    case True
    with Cons.prems have "\<not> triggers rule w e" by simp
    then show ?thesis by (simp add: process_rule_not_triggered)
  next
    case False
    then show ?thesis by (rule process_rule_other_pair_active)
  qed
  with Cons show ?case by simp
qed

lemma last_filter_split:
  assumes "filter P xs \<noteq> []"
  shows "\<exists>pre post. xs = pre @ last (filter P xs) # post \<and> P (last (filter P xs))
           \<and> (\<forall>x \<in> set post. \<not> P x)"
proof -
  from assms have "\<exists>x \<in> set xs. P x" by (auto simp: filter_empty_conv)
  from split_list_last_prop [OF this]
  obtain pre x post where split: "xs = pre @ x # post" "P x" "\<forall>z \<in> set post. \<not> P z"
    by blast
  then have "filter P xs = filter P pre @ [x]" by simp
  then have l: "last (filter P xs) = x" by simp
  show ?thesis
    unfolding l using split by (intro exI [of _ pre] exI [of _ post]) simp
qed

text \<open>The history of a pair, as headlines.\<close>

lemma headline_weather_alert:
  "map headline (weather_rows (alerts (weather_alert location rule v s)) d (loc_id location)) =
   map headline (weather_rows (alerts s) d (loc_id location))
     @ (if rule_disaster_id rule = d then [hazard_headline rule] else [])"
  by (simp add: weather_alert_def Let_def weather_rows_append
      headline_weather_rows_deactivate_rows)
     (simp add: weather_rows_def headline_def hazard_headline_def)

lemma headline_earthquake_alert:
  "map headline (weather_rows (alerts (earthquake_alert location rule v ev s)) d lid) =
   map headline (weather_rows (alerts s) d lid)"
  by (simp add: earthquake_alert_def weather_rows_append
      headline_weather_rows_deactivate_rows)
     (simp add: weather_rows_def)

lemma headline_process_rule:
  "map headline (weather_rows (alerts (store (process_rule location w e rule c))) d (loc_id location)) =
   map headline (weather_rows (alerts (store c)) d (loc_id location))
     @ (if rule_disaster_id rule = d \<and> weather_condition rule \<noteq> earthquake_magnitude
           \<and> triggers rule w e
        then [hazard_headline rule] else [])"
proof (cases "triggers rule w e")
  case False
  then show ?thesis by (simp add: process_rule_not_triggered)
next
  case True
  then obtain v where v: "currentValue_of (weather_condition rule) w e = Some v"
      "evaluate_operator rule v"
    by (auto simp: triggers_def split: option.splits)
  show ?thesis
  proof (cases "weather_condition rule = earthquake_magnitude")
    case False
    from process_rule_weather [OF False v] False True show ?thesis
      by (simp add: headline_weather_alert)
  next
    case eq: True
    with v obtain ev where ev: "e = Some ev" "magnitude ev = Some v"
      by (cases e) simp_all
    from process_rule_earthquake [OF eq ev(2) v(2)] ev(1) eq show ?thesis
      by (simp add: headline_earthquake_alert)
  qed
qed

lemma headline_for_each_rule:
  "map headline (weather_rows (alerts (store (for_each_rule location w e rules c))) d (loc_id location)) =
   map headline (weather_rows (alerts (store c)) d (loc_id location))
     @ map hazard_headline
         [r \<leftarrow> rules. rule_disaster_id r = d \<and> weather_condition r \<noteq> earthquake_magnitude
                      \<and> triggers r w e]"
  by (induction rules arbitrary: c) (simp_all add: headline_process_rule)

lemma headline_auto_deactivation:
  "map headline (weather_rows (alerts (auto_deactivation location trig ids s)) d lid) =
   map headline (weather_rows (alerts s) d lid)"
  by (induction ids arbitrary: s) (simp_all add: headline_weather_rows_deactivate_rows)

lemma headline_checkRulesAndAlert:
  "map headline (weather_rows (alerts (checkRulesAndAlert location w e s)) d (loc_id location)) =
   map headline (weather_rows (alerts s) d (loc_id location))
     @ map hazard_headline
         [r \<leftarrow> select_rules s (loc_id location).
            rule_disaster_id r = d \<and> weather_condition r \<noteq> earthquake_magnitude
            \<and> triggers r w e]"
  by (simp add: checkRulesAndAlert_def run_rules_def Let_def headline_for_each_rule
      headline_auto_deactivation)

lemma last_trigger_wins:
  assumes trig: "[r \<leftarrow> select_rules s (loc_id location).
                   rule_disaster_id r = d \<and> triggers r (Some wd) e] \<noteq> []"
    and last_weather:
      "weather_condition (last [r \<leftarrow> select_rules s (loc_id location).
                   rule_disaster_id r = d \<and> triggers r (Some wd) e]) \<noteq> earthquake_magnitude"
  shows "\<exists>a v. active_alerts (alerts (checkRulesAndAlert location (Some wd) e s)) d (loc_id location) = [a]
           \<and> currentValue_of (weather_condition (last [r \<leftarrow> select_rules s (loc_id location).
                   rule_disaster_id r = d \<and> triggers r (Some wd) e])) (Some wd) e = Some v
           \<and> headline a = hazard_headline (last [r \<leftarrow> select_rules s (loc_id location).
                   rule_disaster_id r = d \<and> triggers r (Some wd) e])
           \<and> description a = Hazard_text (weather_condition (last [r \<leftarrow> select_rules s (loc_id location).
                   rule_disaster_id r = d \<and> triggers r (Some wd) e])) v
                 (threshold_value (last [r \<leftarrow> select_rules s (loc_id location).
                   rule_disaster_id r = d \<and> triggers r (Some wd) e]))
           \<and> source a = ''System'' \<and> external_id a = None \<and> is_active a"
proof -
  let ?rules = "select_rules s (loc_id location)"
  let ?P = "\<lambda>r. rule_disaster_id r = d \<and> triggers r (Some wd) e"
  let ?r = "last (filter ?P ?rules)"
  let ?init = "\<lparr>store = s, triggeredDisasterIds = {}, earthquakeDisasterIds = {}\<rparr>"
  from last_filter_split [OF trig] obtain pre post
    where split: "?rules = pre @ ?r # post" and r: "rule_disaster_id ?r = d" "triggers ?r (Some wd) e"
      and quiet: "\<forall>x \<in> set post. \<not> ?P x"
    by blast
  from r(2) obtain v where v: "currentValue_of (weather_condition ?r) (Some wd) e = Some v"
      "evaluate_operator ?r v"
    by (auto simp: triggers_def split: option.splits)
  define c1 where "c1 = for_each_rule location (Some wd) e pre ?init"
  define c2 where "c2 = process_rule location (Some wd) e ?r c1"
  define c3 where "c3 = for_each_rule location (Some wd) e post c2"
  have run: "run_rules location (Some wd) e s = c3"
    unfolding run_rules_def c3_def c2_def c1_def
    by (subst split) (simp add: for_each_rule_append)
  have "store c2 = weather_alert location ?r v (store c1)"
    unfolding c2_def by (rule process_rule_weather [OF last_weather v])
  with r(1) obtain i where c2: "active_alerts (alerts (store c2)) d (loc_id location) =
     [new_alert i d (loc_id location)
        (''Automated Alert: '' @ or_else (message_template ?r) ''Hazard Detected'')
        (Hazard_text (weather_condition ?r) v (threshold_value ?r))
        (or_else (Some (severity_level ?r)) ''Medium'') ''System'' None]"
    using weather_alert_active [of location ?r v "store c1"] by auto
  have c3: "active_alerts (alerts (store c3)) d (loc_id location) =
            active_alerts (alerts (store c2)) d (loc_id location)"
    unfolding c3_def using quiet by (rule for_each_rule_quiet_active)
  have "?r \<in> set ?rules" by (subst split) simp
  with r have "d \<in> rule_disaster_id ` {x \<in> set ?rules. triggers x (Some wd) e}"
    by (intro image_eqI [of _ _ ?r]) simp_all
  then have "d \<in> triggeredDisasterIds c3"
    unfolding run [symmetric] run_rules_def for_each_rule_triggered by simp
  then have "active_alerts (alerts (checkRulesAndAlert location (Some wd) e s)) d (loc_id location) =
             active_alerts (alerts (store c3)) d (loc_id location)"
    by (simp add: checkRulesAndAlert_def Let_def run auto_deactivation_triggered_active)
  with c2 c3 v(1) show ?thesis
    by (simp add: headline_def hazard_headline_def)
qed

text \<open>
  Claim C7, amended. When several continuous-signal rules of one disaster trigger in one
  call, each of them inserts its own alert in the order of the rule loop (the history of
  the pair grows by one headline per triggering continuous-signal rule, in that order).
  When the call has no point event, or the last rule of the disaster that triggers in
  the call is a continuous-signal rule, the only active alert of the pair after the call
  carries the severity and the message of the last triggering rule.
\<close>

theorem last_triggering_rule_wins:
  assumes "trig = [r \<leftarrow> select_rules s (loc_id location).
                    rule_disaster_id r = d \<and> triggers r (Some wd) e]"
    and "trig \<noteq> []"
    and "e = None \<or> weather_condition (last trig) \<noteq> earthquake_magnitude"
  shows "map headline
           (weather_rows (alerts (checkRulesAndAlert location (Some wd) e s)) d (loc_id location)) =
         map headline (weather_rows (alerts s) d (loc_id location))
           @ map hazard_headline [r \<leftarrow> trig. weather_condition r \<noteq> earthquake_magnitude]
         \<and> (\<exists>a v. active_alerts (alerts (checkRulesAndAlert location (Some wd) e s))
                     d (loc_id location) = [a]
               \<and> currentValue_of (weather_condition (last trig)) (Some wd) e = Some v
               \<and> headline a = hazard_headline (last trig)
               \<and> description a =
                   Hazard_text (weather_condition (last trig)) v (threshold_value (last trig))
               \<and> source a = ''System'' \<and> external_id a = None \<and> is_active a)"
proof
  have "[r \<leftarrow> trig. weather_condition r \<noteq> earthquake_magnitude] =
        [r \<leftarrow> select_rules s (loc_id location).
           rule_disaster_id r = d \<and> weather_condition r \<noteq> earthquake_magnitude
           \<and> triggers r (Some wd) e]"
    unfolding assms(1) by (simp add: conj_ac)
  then show "map headline
           (weather_rows (alerts (checkRulesAndAlert location (Some wd) e s)) d (loc_id location)) =
         map headline (weather_rows (alerts s) d (loc_id location))
           @ map hazard_headline [r \<leftarrow> trig. weather_condition r \<noteq> earthquake_magnitude]"
    by (simp add: headline_checkRulesAndAlert)
next
  have last_weather: "weather_condition (last trig) \<noteq> earthquake_magnitude"
  proof (cases "e = None")
    case True
    from assms(2) have "last trig \<in> set trig" by simp
    then have "triggers (last trig) (Some wd) e" by (simp add: assms(1))
    with True show ?thesis by (auto simp: triggers_def)
  next
    case False
    with assms(3) show ?thesis by simp
  qed
  from assms(2) last_weather
  show "\<exists>a v. active_alerts (alerts (checkRulesAndAlert location (Some wd) e s))
                     d (loc_id location) = [a]
               \<and> currentValue_of (weather_condition (last trig)) (Some wd) e = Some v
               \<and> headline a = hazard_headline (last trig)
               \<and> description a =
                   Hazard_text (weather_condition (last trig)) v (threshold_value (last trig))
               \<and> source a = ''System'' \<and> external_id a = None \<and> is_active a"
    unfolding assms(1) by (rule last_trigger_wins)
qed

text \<open>
  Claim C7 at an instance without point event: rain 60 triggers the Medium rule and then
  the High rule.
\<close>

theorem last_triggering_rule_wins_witness:
  "[r \<leftarrow> select_rules example_db (loc_id dhaka).
      rule_disaster_id r = 2 \<and> triggers r (Some (reading 60)) None] = [rain_medium, rain_high]
   \<and> map headline
        (weather_rows (alerts (checkRulesAndAlert dhaka (Some (reading 60)) None example_db))
           2 (loc_id dhaka)) =
      [(''Automated Alert: Heavy rainfall'', ''Medium''),
       (''Automated Alert: Heavy rainfall'', ''Medium''),
       (''Automated Alert: Very heavy rain'', ''High'')]
   \<and> (\<exists>a. active_alerts (alerts (checkRulesAndAlert dhaka (Some (reading 60)) None example_db))
              2 (loc_id dhaka) = [a]
          \<and> headline a = (''Automated Alert: Very heavy rain'', ''High''))"
proof -
  have l: "loc_id dhaka = 1" by (simp add: dhaka_def)
  have d: "rule_disaster_id rain_medium = 2" "rule_disaster_id rain_high = 2"
    "rule_disaster_id quake_critical = 1"
    by (simp_all add: rain_medium_def rain_high_def quake_critical_def)
  have trig: "[rain_medium, rain_high] =
      [r \<leftarrow> select_rules example_db (loc_id dhaka).
         rule_disaster_id r = 2 \<and> triggers r (Some (reading 60)) None]"
    by (simp add: l select_rules_example_db d triggers_rain)
  have ne: "[rain_medium, rain_high] \<noteq> []" by simp
  have lw: "weather_condition (last [rain_medium, rain_high]) \<noteq> earthquake_magnitude"
    by (simp add: rain_high_def)
  have w: "weather_condition rain_medium \<noteq> earthquake_magnitude"
    "weather_condition rain_high \<noteq> earthquake_magnitude"
    by (simp_all add: rain_medium_def rain_high_def)
  have old: "map headline (weather_rows (alerts example_db) 2 (loc_id dhaka)) =
             [(''Automated Alert: Heavy rainfall'', ''Medium'')]"
    by (simp add: weather_rows_def headline_def example_db_def flood_alert_def l)
  have hl: "hazard_headline rain_medium = (''Automated Alert: Heavy rainfall'', ''Medium'')"
    "hazard_headline rain_high = (''Automated Alert: Very heavy rain'', ''High'')"
    by (simp_all add: hazard_headline_def or_else_def rain_medium_def rain_high_def)
  from last_triggering_rule_wins [OF trig ne disjI1 [OF refl]] trig [symmetric] old hl w lw
  show ?thesis by auto
qed

lemma select_rules_overlap_db:
  "select_rules overlap_db (loc_id dhaka) = [rain_medium, rain_high, flood_after_quake]"
  by (simp add: select_rules_def overlap_db_def example_db_def dhaka_def rain_medium_def
      rain_high_def flood_after_quake_def earthquake_type_def flash_flood_def)

lemma select_rules_overlap_stale_db:
  "select_rules overlap_stale_db (loc_id dhaka) = [rain_medium, rain_high, flood_after_quake]"
  using select_rules_overlap_db by (simp add: select_rules_def overlap_stale_db_def)

lemma triggers_flood_after_quake:
  "triggers flood_after_quake w (Some strong_quake)"
  by (simp add: triggers_def evaluate_operator_iff flood_after_quake_def strong_quake_def)

text \<open>The call with rain 60 and the strong quake, on a store that selects the three rules.\<close>

lemma overlap_cycle:
  assumes "select_rules s (loc_id dhaka) = [rain_medium, rain_high, flood_after_quake]"
  shows "checkRulesAndAlert dhaka (Some (reading 60)) (Some strong_quake) s =
         earthquake_alert dhaka flood_after_quake 6.8 strong_quake
           (weather_alert dhaka rain_high 60 (weather_alert dhaka rain_medium 60 s))"
proof -
  let ?w = "Some (reading 60)" and ?e = "Some strong_quake"
  let ?init = "\<lparr>store = s, triggeredDisasterIds = {}, earthquakeDisasterIds = {}\<rparr>"
  let ?c1 = "process_rule dhaka ?w ?e rain_medium ?init"
  let ?c2 = "process_rule dhaka ?w ?e rain_high ?c1"
  let ?c3 = "process_rule dhaka ?w ?e flood_after_quake ?c2"
  have run: "run_rules dhaka ?w ?e s = ?c3"
    by (simp add: run_rules_def assms)
  have s1: "store ?c1 = weather_alert dhaka rain_medium 60 s"
    using process_rule_weather [of rain_medium ?w ?e 60 dhaka ?init]
    by (simp add: rain_medium_def reading_def evaluate_operator_iff)
  have s2: "store ?c2 = weather_alert dhaka rain_high 60 (store ?c1)"
    using process_rule_weather [of rain_high ?w ?e 60 dhaka ?c1]
    by (simp add: rain_high_def reading_def evaluate_operator_iff)
  have s3: "store ?c3 = earthquake_alert dhaka flood_after_quake 6.8 strong_quake (store ?c2)"
    using process_rule_earthquake [of flood_after_quake strong_quake "6.8" dhaka ?w ?c2]
      evaluate_flood_after_quake
    by (simp add: flood_after_quake_def strong_quake_def)
  have "triggers rain_high ?w ?e" by (simp add: triggers_rain)
  then have t: "2 \<in> triggeredDisasterIds ?c3"
    by (simp add: process_rule_triggered rain_high_def)
  have ids: "weatherDisasterIds [rain_medium, rain_high, flood_after_quake] = [2, 2]"
    by (simp add: weatherDisasterIds_def rain_medium_def rain_high_def flood_after_quake_def)
  from t have "auto_deactivation dhaka (triggeredDisasterIds ?c3) [2, 2] (store ?c3) = store ?c3"
    by simp
  then show ?thesis
    by (simp add: checkRulesAndAlert_def Let_def run assms ids s1 s2 s3)
qed

text \<open>
  Claim C7 as stated fails when an earthquake rule of the same disaster triggers in the
  call. Flash Flood has the two rain rules and, after them in the loop, an earthquake
  rule; the rain is 60 and the event has magnitude 6.8, so the three rules trigger. In
  the store of the scenario the two rain rules insert their alerts and then the path of
  the earthquake rule deactivates the alert of the High rule and inserts its own: the
  active alert of the pair is not that of the last triggering continuous-signal rule. In
  the store whose inactive alert carries the id of the event, the earthquake rule finds
  the id and inserts nothing: the active alert of the pair is that of the High rule, not
  that of the last triggering rule.
\<close>

theorem point_event_rule_decides_active_alert:
  "select_rules overlap_db (loc_id dhaka) = [rain_medium, rain_high, flood_after_quake]
   \<and> select_rules overlap_stale_db (loc_id dhaka) = [rain_medium, rain_high, flood_after_quake]
   \<and> rule_disaster_id rain_medium = 2 \<and> rule_disaster_id rain_high = 2
   \<and> rule_disaster_id flood_after_quake = 2
   \<and> weather_condition rain_medium = rain_sum \<and> weather_condition rain_high = rain_sum
   \<and> weather_condition flood_after_quake = earthquake_magnitude
   \<and> triggers rain_medium (Some (reading 60)) (Some strong_quake)
   \<and> triggers rain_high (Some (reading 60)) (Some strong_quake)
   \<and> triggers flood_after_quake (Some (reading 60)) (Some strong_quake)
   \<and> alerts (checkRulesAndAlert dhaka (Some (reading 60)) (Some strong_quake) overlap_db) =
       [flood_alert\<lparr>is_active := False\<rparr>,
        (new_alert 2 2 1 ''Automated Alert: Heavy rainfall'' (Hazard_text rain_sum 60 25)
           ''Medium'' ''System'' None)\<lparr>is_active := False\<rparr>,
        (new_alert 3 2 1 ''Automated Alert: Very heavy rain'' (Hazard_text rain_sum 60 50)
           ''High'' ''System'' None)\<lparr>is_active := False\<rparr>,
        new_alert 4 2 1 ''Automated Alert: Embankment failure risk''
          (Seismic_text 6.8 ''40 km N of Dhaka'' 6.5) ''Critical'' ''System''
          (Some ''us7000test'')]
   \<and> alerts (checkRulesAndAlert dhaka (Some (reading 60)) (Some strong_quake) overlap_stale_db) =
       [stale_alert,
        (new_alert 3 2 1 ''Automated Alert: Heavy rainfall'' (Hazard_text rain_sum 60 25)
           ''Medium'' ''System'' None)\<lparr>is_active := False\<rparr>,
        new_alert 4 2 1 ''Automated Alert: Very heavy rain'' (Hazard_text rain_sum 60 50)
          ''High'' ''System'' None]
   \<and> active_alerts
         (alerts (checkRulesAndAlert dhaka (Some (reading 60)) (Some strong_quake) overlap_db))
         2 (loc_id dhaka) =
       [new_alert 4 2 1 ''Automated Alert: Embankment failure risk''
          (Seismic_text 6.8 ''40 km N of Dhaka'' 6.5) ''Critical'' ''System''
          (Some ''us7000test'')]
   \<and> active_alerts
         (alerts (checkRulesAndAlert dhaka (Some (reading 60)) (Some strong_quake)
                    overlap_stale_db))
         2 (loc_id dhaka) =
       [new_alert 4 2 1 ''Automated Alert: Very heavy rain'' (Hazard_text rain_sum 60 50)
          ''High'' ''System'' None]"
proof -
  have a: "alerts (earthquake_alert dhaka flood_after_quake 6.8 strong_quake
           (weather_alert dhaka rain_high 60 (weather_alert dhaka rain_medium 60 overlap_db))) =
       [flood_alert\<lparr>is_active := False\<rparr>,
        (new_alert 2 2 1 ''Automated Alert: Heavy rainfall'' (Hazard_text rain_sum 60 25)
           ''Medium'' ''System'' None)\<lparr>is_active := False\<rparr>,
        (new_alert 3 2 1 ''Automated Alert: Very heavy rain'' (Hazard_text rain_sum 60 50)
           ''High'' ''System'' None)\<lparr>is_active := False\<rparr>,
        new_alert 4 2 1 ''Automated Alert: Embankment failure risk''
          (Seismic_text 6.8 ''40 km N of Dhaka'' 6.5) ''Critical'' ''System''
          (Some ''us7000test'')]"
    by (simp add: earthquake_alert_def weather_alert_def Let_def alerts_with_external_id_def
        active_alerts_def deactivate_rows_def overlap_db_def example_db_def flood_alert_def
        strong_quake_def dhaka_def rain_medium_def rain_high_def flood_after_quake_def
        or_else_def)
  have b: "alerts (earthquake_alert dhaka flood_after_quake 6.8 strong_quake
           (weather_alert dhaka rain_high 60 (weather_alert dhaka rain_medium 60 overlap_stale_db))) =
       [stale_alert,
        (new_alert 3 2 1 ''Automated Alert: Heavy rainfall'' (Hazard_text rain_sum 60 25)
           ''Medium'' ''System'' None)\<lparr>is_active := False\<rparr>,
        new_alert 4 2 1 ''Automated Alert: Very heavy rain'' (Hazard_text rain_sum 60 50)
          ''High'' ''System'' None]"
    by (simp add: earthquake_alert_def weather_alert_def Let_def alerts_with_external_id_def
        active_alerts_def deactivate_rows_def overlap_stale_db_def overlap_db_def example_db_def
        stale_alert_def strong_quake_def dhaka_def rain_medium_def rain_high_def
        flood_after_quake_def or_else_def)
  have c: "rule_disaster_id rain_medium = 2" "rule_disaster_id rain_high = 2"
    "rule_disaster_id flood_after_quake = 2"
    "weather_condition rain_medium = rain_sum" "weather_condition rain_high = rain_sum"
    "weather_condition flood_after_quake = earthquake_magnitude"
    by (simp_all add: rain_medium_def rain_high_def flood_after_quake_def)
  have t: "triggers rain_medium (Some (reading 60)) (Some strong_quake)"
    "triggers rain_high (Some (reading 60)) (Some strong_quake)"
    "triggers flood_after_quake (Some (reading 60)) (Some strong_quake)"
    by (simp_all add: triggers_rain triggers_flood_after_quake)
  note a' = a [folded overlap_cycle [OF select_rules_overlap_db]]
  note b' = b [folded overlap_cycle [OF select_rules_overlap_stale_db]]
  have l: "loc_id dhaka = 1" by (simp add: dhaka_def)
  have a'': "active_alerts
         (alerts (checkRulesAndAlert dhaka (Some (reading 60)) (Some strong_quake) overlap_db))
         2 (loc_id dhaka) =
       [new_alert 4 2 1 ''Automated Alert: Embankment failure risk''
          (Seismic_text 6.8 ''40 km N of Dhaka'' 6.5) ''Critical'' ''System''
          (Some ''us7000test'')]"
    by (simp add: a' l active_alerts_def flood_alert_def)
  have b'': "active_alerts
         (alerts (checkRulesAndAlert dhaka (Some (reading 60)) (Some strong_quake)
                    overlap_stale_db))
         2 (loc_id dhaka) =
       [new_alert 4 2 1 ''Automated Alert: Very heavy rain'' (Hazard_text rain_sum 60 50)
          ''High'' ''System'' None]"
    by (simp add: b' l active_alerts_def stale_alert_def)
  from select_rules_overlap_db select_rules_overlap_stale_db c t a' b' a'' b''
  show ?thesis by blast
qed

section \<open>The weather cycle and the cached feed\<close>

lemma select_rules_weather_logs [simp]:
  "select_rules (s\<lparr>weather_logs := x\<rparr>) lid = select_rules s lid"
  by (simp add: select_rules_def)

lemma deactivate_weather_logs:
  "deactivate d l (s\<lparr>weather_logs := x\<rparr>) = (deactivate d l s)\<lparr>weather_logs := x\<rparr>"
  by (simp add: deactivate_def)

lemma insert_alert_weather_logs:
  "insert_alert d l ttl descr sev src ext (s\<lparr>weather_logs := x\<rparr>) =
   (insert_alert d l ttl descr sev src ext s)\<lparr>weather_logs := x\<rparr>"
  by (simp add: insert_alert_def)

lemma weather_alert_weather_logs:
  "weather_alert location rule v (s\<lparr>weather_logs := x\<rparr>) =
   (weather_alert location rule v s)\<lparr>weather_logs := x\<rparr>"
  by (simp add: weather_alert_def Let_def deactivate_weather_logs insert_alert_weather_logs)

lemma earthquake_alert_weather_logs:
  "earthquake_alert location rule v ev (s\<lparr>weather_logs := x\<rparr>) =
   (earthquake_alert location rule v ev s)\<lparr>weather_logs := x\<rparr>"
  by (simp add: earthquake_alert_def deactivate_weather_logs insert_alert_weather_logs)

lemma process_rule_weather_logs:
  "process_rule location w e rule (with_logs x c) =
   with_logs x (process_rule location w e rule c)"
  by (simp add: process_rule_def Let_def with_logs_def weather_alert_weather_logs
      earthquake_alert_weather_logs split: option.split)

lemma for_each_rule_weather_logs:
  "for_each_rule location w e rules (with_logs x c) =
   with_logs x (for_each_rule location w e rules c)"
  by (induction rules arbitrary: c) (simp_all add: process_rule_weather_logs)

lemma auto_deactivation_weather_logs:
  "auto_deactivation location trig ids (s\<lparr>weather_logs := x\<rparr>) =
   (auto_deactivation location trig ids s)\<lparr>weather_logs := x\<rparr>"
  by (induction ids arbitrary: s) (simp_all add: deactivate_weather_logs)

lemma checkRulesAndAlert_weather_logs:
  "checkRulesAndAlert location w e (s\<lparr>weather_logs := x\<rparr>) =
   (checkRulesAndAlert location w e s)\<lparr>weather_logs := x\<rparr>"
proof -
  have init: "\<lparr>store = s\<lparr>weather_logs := x\<rparr>, triggeredDisasterIds = {}, earthquakeDisasterIds = {}\<rparr> =
              with_logs x \<lparr>store = s, triggeredDisasterIds = {}, earthquakeDisasterIds = {}\<rparr>"
    by (simp add: with_logs_def)
  show ?thesis
    by (simp add: checkRulesAndAlert_def run_rules_def Let_def init for_each_rule_weather_logs)
       (simp add: with_logs_def auto_deactivation_weather_logs)
qed

lemma logWeatherData_only_logs:
  "logWeatherData now lid w eq s = s\<lparr>weather_logs := weather_logs (logWeatherData now lid w eq s)\<rparr>"
  by (simp add: logWeatherData_def split: option.split)

lemma weather_locations_cache_independent:
  "\<exists>y. weather_locations e cache2 locs (s\<lparr>weather_logs := x\<rparr>) =
        (weather_locations e cache1 locs s)\<lparr>weather_logs := y\<rparr>"
proof (induction locs arbitrary: s x)
  case Nil
  show ?case by (intro exI [of _ x]) simp
next
  case (Cons location locs)
  let ?w = "fetchWeatherData e (latitude location) (longitude location)"
  let ?eq = "\<lambda>cache. case cache of None \<Rightarrow> None
     | Some feed \<Rightarrow> checkEarthquakesNearLocation feed (latitude location) (longitude location) 500"
  show ?case
  proof (cases "?w = None")
    case True
    with Cons.IH [of x s] show ?thesis by simp
  next
    case False
    let ?l1 = "logWeatherData (clock e (loc_id location)) (loc_id location) ?w (?eq cache1) s"
    let ?l2 = "logWeatherData (clock e (loc_id location)) (loc_id location) ?w (?eq cache2)
                 (s\<lparr>weather_logs := x\<rparr>)"
    have l1: "?l1 = s\<lparr>weather_logs := weather_logs ?l1\<rparr>"
      by (rule logWeatherData_only_logs)
    have "?l2 = s\<lparr>weather_logs := x\<rparr>\<lparr>weather_logs := weather_logs ?l2\<rparr>"
      by (rule logWeatherData_only_logs)
    then have l2: "?l2 = s\<lparr>weather_logs := weather_logs ?l2\<rparr>" by simp
    let ?t = "checkRulesAndAlert location ?w None s"
    have t1: "checkRulesAndAlert location ?w None ?l1 = ?t\<lparr>weather_logs := weather_logs ?l1\<rparr>"
      by (subst l1) (rule checkRulesAndAlert_weather_logs)
    have t2: "checkRulesAndAlert location ?w None ?l2 = ?t\<lparr>weather_logs := weather_logs ?l2\<rparr>"
      by (subst l2) (rule checkRulesAndAlert_weather_logs)
    have lhs: "weather_locations e cache2 (location # locs) (s\<lparr>weather_logs := x\<rparr>) =
               weather_locations e cache2 locs (checkRulesAndAlert location ?w None ?l2)"
      using False by (simp add: Let_def)
    have rhs: "weather_locations e cache1 (location # locs) s =
               weather_locations e cache1 locs (checkRulesAndAlert location ?w None ?l1)"
      using False by (simp add: Let_def)
    from Cons.IH [of "weather_logs ?l2" "?t\<lparr>weather_logs := weather_logs ?l1\<rparr>"]
    obtain y where "weather_locations e cache2 locs (?t\<lparr>weather_logs := weather_logs ?l2\<rparr>) =
        (weather_locations e cache1 locs (?t\<lparr>weather_logs := weather_logs ?l1\<rparr>))\<lparr>weather_logs := y\<rparr>"
      by auto
    then have "weather_locations e cache2 (location # locs) (s\<lparr>weather_logs := x\<rparr>) =
               (weather_locations e cache1 (location # locs) s)\<lparr>weather_logs := y\<rparr>"
      by (simp only: lhs rhs t1 t2)
    then show ?thesis ..
  qed
qed

lemma weather_locations_no_feed_call:
  "weather_locations (e\<lparr>fetchRecentEarthquakes := feed\<rparr>) cache locs s =
   weather_locations e cache locs s"
  by (induction locs arbitrary: s) (simp_all add: Let_def)

text \<open>
  Claim C9, amended. A weather cycle makes no call to the seismic provider, and the
  strongest nearby event of the cached feed goes to the reading log only: the rules of
  a location are evaluated with no point event, so the alerts table after the cycle is
  the same whatever the cache holds.
\<close>

theorem weather_cycle_ignores_cached_event:
  "runWeatherCheck (e\<lparr>fetchRecentEarthquakes := feed\<rparr>) sch = runWeatherCheck e sch
   \<and> alerts (database (runWeatherCheck e (sch\<lparr>cachedEarthquakes := cache\<rparr>))) =
     alerts (database (runWeatherCheck e sch))"
proof
  show "runWeatherCheck (e\<lparr>fetchRecentEarthquakes := feed\<rparr>) sch = runWeatherCheck e sch"
    by (simp add: runWeatherCheck_def weather_locations_no_feed_call)
next
  let ?locs = "[l \<leftarrow> locations (database sch). loc_is_active l]"
  from weather_locations_cache_independent
    [where e = e and ?cache2.0 = cache and locs = ?locs and s = "database sch"
       and x = "weather_logs (database sch)" and ?cache1.0 = "cachedEarthquakes sch"]
  obtain y where "weather_locations e cache ?locs (database sch) =
        (weather_locations e (cachedEarthquakes sch) ?locs (database sch))\<lparr>weather_logs := y\<rparr>"
    by auto
  then show "alerts (database (runWeatherCheck e (sch\<lparr>cachedEarthquakes := cache\<rparr>))) =
     alerts (database (runWeatherCheck e sch))"
    by (simp add: runWeatherCheck_def)
qed

lemma calm_without_event:
  "alerts (checkRulesAndAlert dhaka (Some (reading 0)) None calm_db) = []"
proof -
  let ?init = "\<lparr>store = calm_db, triggeredDisasterIds = {}, earthquakeDisasterIds = {}\<rparr>"
  have "store (for_each_rule dhaka (Some (reading 0)) None
                 [rain_medium, rain_high, quake_critical] ?init) = calm_db"
    by (simp add: process_rule_not_triggered triggers_rain triggers_quake_critical)
  moreover have "alerts calm_db = []" by (simp add: calm_db_def)
  ultimately show ?thesis
    by (simp add: checkRulesAndAlert_def run_rules_def dhaka_def select_rules_calm_db Let_def
        auto_deactivation_no_alerts)
qed

lemma calm_with_event:
  "alerts (checkRulesAndAlert dhaka (Some (reading 0)) (Some (quake_of near_feature 0)) calm_db) =
     [new_alert 2 1 1 ''Automated Alert: Major earthquake''
        (Seismic_text 6.8 ''Dhaka'' 6.5) ''Critical'' ''System'' (Some ''us7000test'')]"
proof -
  let ?e = "Some (quake_of near_feature 0)"
  let ?init = "\<lparr>store = calm_db, triggeredDisasterIds = {}, earthquakeDisasterIds = {}\<rparr>"
  define c where "c = for_each_rule dhaka (Some (reading 0)) ?e [rain_medium, rain_high] ?init"
  have c: "store c = calm_db"
    by (simp add: c_def process_rule_not_triggered triggers_rain)
  have "evaluate_operator quake_critical 6.8"
    by (simp add: evaluate_operator_iff quake_critical_def)
  then have "store (process_rule dhaka (Some (reading 0)) ?e quake_critical c) =
        earthquake_alert dhaka quake_critical 6.8 (quake_of near_feature 0) calm_db"
    using process_rule_earthquake [of quake_critical "quake_of near_feature 0" "6.8" dhaka
        "Some (reading 0)" c]
    by (simp add: c quake_critical_def near_feature_def)
  moreover have "alerts (earthquake_alert dhaka quake_critical 6.8 (quake_of near_feature 0) calm_db) =
     [new_alert 2 1 1 ''Automated Alert: Major earthquake''
        (Seismic_text 6.8 ''Dhaka'' 6.5) ''Critical'' ''System'' (Some ''us7000test'')]"
    by (simp add: earthquake_alert_def alerts_with_external_id_def deactivate_rows_def
        calm_db_def example_db_def dhaka_def quake_critical_def quake_of_def near_feature_def
        or_else_def)
  ultimately have run: "alerts (store (run_rules dhaka (Some (reading 0)) ?e calm_db)) =
     [new_alert 2 1 1 ''Automated Alert: Major earthquake''
        (Seismic_text 6.8 ''Dhaka'' 6.5) ''Critical'' ''System'' (Some ''us7000test'')]"
    using for_each_rule_append [of dhaka "Some (reading 0)" ?e "[rain_medium, rain_high]"
        "[quake_critical]" ?init]
    by (simp add: run_rules_def dhaka_def select_rules_calm_db c_def)
  have "active_alerts (alerts (store (run_rules dhaka (Some (reading 0)) ?e calm_db))) 2 1 = []"
    unfolding run by (simp add: active_alerts_def)
  then have "auto_deactivation dhaka trig [2, 2] (store (run_rules dhaka (Some (reading 0)) ?e calm_db)) =
             store (run_rules dhaka (Some (reading 0)) ?e calm_db)" for trig
    by (simp add: dhaka_def)
  moreover have "weatherDisasterIds [rain_medium, rain_high, quake_critical] = [2, 2]"
    by (simp add: weatherDisasterIds_def rain_medium_def rain_high_def quake_critical_def)
  ultimately show ?thesis
    using run by (simp add: checkRulesAndAlert_def Let_def dhaka_def select_rules_calm_db)
qed

lemma cached_cycle_log:
  "map log_earthquake_id (weather_logs (database (runWeatherCheck dry_env cached_scheduler))) =
     [Some ''us7000test'']"
proof -
  have locs: "[l \<leftarrow> locations calm_db. loc_is_active l] = [dhaka]"
    by (simp add: calm_db_def example_db_def dhaka_def)
  have w: "fetchWeatherData dry_env lat lon = Some (reading 0)" for lat lon
    by (simp add: dry_env_def)
  have logged: "logWeatherData now lid wd eq calm_db =
                calm_db\<lparr>weather_logs := weather_logs (logWeatherData now lid wd eq calm_db)\<rparr>"
    for now lid wd eq
    by (rule logWeatherData_only_logs)
  have row: "map log_earthquake_id
               (weather_logs (logWeatherData now lid (Some (reading 0))
                                (Some (quake_of near_feature 0)) calm_db)) =
             [Some ''us7000test'']" for now lid
    by (simp add: logWeatherData_def calm_db_def example_db_def quake_of_def near_feature_def)
  show ?thesis
    unfolding runWeatherCheck_def
    by (simp add: cached_scheduler_def locs w Let_def nearest_near_feature)
       (subst logged, simp add: checkRulesAndAlert_weather_logs row)
qed

lemma cached_cycle_no_alert:
  "alerts (database (runWeatherCheck dry_env cached_scheduler)) = []"
proof -
  have locs: "[l \<leftarrow> locations calm_db. loc_is_active l] = [dhaka]"
    by (simp add: calm_db_def example_db_def dhaka_def)
  have w: "fetchWeatherData dry_env lat lon = Some (reading 0)" for lat lon
    by (simp add: dry_env_def)
  have logged: "logWeatherData now lid wd eq calm_db =
                calm_db\<lparr>weather_logs := weather_logs (logWeatherData now lid wd eq calm_db)\<rparr>"
    for now lid wd eq
    by (rule logWeatherData_only_logs)
  show ?thesis
    unfolding runWeatherCheck_def
    by (simp add: cached_scheduler_def locs w Let_def)
       (subst logged, simp add: checkRulesAndAlert_weather_logs calm_without_event)
qed

text \<open>
  Claim C9, amended, at an instance: with the event in the cache or with an empty
  cache, the weather cycle leaves the same alerts table; the row of the reading log
  carries the id of the cached event.
\<close>

theorem weather_cycle_ignores_cached_event_witness:
  "cachedEarthquakes cached_scheduler \<noteq> None
   \<and> alerts (database (runWeatherCheck dry_env (cached_scheduler\<lparr>cachedEarthquakes := None\<rparr>))) =
       alerts (database (runWeatherCheck dry_env cached_scheduler))
   \<and> alerts (database (runWeatherCheck dry_env (cached_scheduler\<lparr>cachedEarthquakes := None\<rparr>))) = []
   \<and> map log_earthquake_id
        (weather_logs (database (runWeatherCheck dry_env cached_scheduler))) =
       [Some ''us7000test'']"
proof -
  from weather_cycle_ignores_cached_event
    [where e = dry_env and feed = "[]" and sch = cached_scheduler and cache = None]
  have "alerts (database (runWeatherCheck dry_env (cached_scheduler\<lparr>cachedEarthquakes := None\<rparr>))) =
        alerts (database (runWeatherCheck dry_env cached_scheduler))"
    by (rule conjunct2)
  moreover have "cachedEarthquakes cached_scheduler \<noteq> None"
    by (simp add: cached_scheduler_def)
  ultimately show ?thesis by (simp only: cached_cycle_no_alert cached_cycle_log simp_thms)
qed

text \<open>
  Claim C9 as stated fails. Dhaka has the rule "earthquake_magnitude >= 6.5, Critical",
  no alert and no rain; the cache holds an event of magnitude 6.8 at Dhaka's coordinates.
  The weather cycle leaves the alerts table empty; the cycle as the claim words it would
  insert the Critical alert.
\<close>

theorem cached_event_not_evaluated:
  "cachedEarthquakes cached_scheduler = Some [near_feature]
   \<and> alerts (database (runWeatherCheck dry_env cached_scheduler)) = []
   \<and> alerts (database (claimed_runWeatherCheck dry_env cached_scheduler)) =
       [new_alert 2 1 1 ''Automated Alert: Major earthquake''
          (Seismic_text 6.8 ''Dhaka'' 6.5) ''Critical'' ''System'' (Some ''us7000test'')]"
proof -
  have locs: "[l \<leftarrow> locations calm_db. loc_is_active l] = [dhaka]"
    by (simp add: calm_db_def example_db_def dhaka_def)
  have w: "fetchWeatherData dry_env lat lon = Some (reading 0)" for lat lon
    by (simp add: dry_env_def)
  have logged: "logWeatherData now lid wd eq calm_db =
                calm_db\<lparr>weather_logs := weather_logs (logWeatherData now lid wd eq calm_db)\<rparr>"
    for now lid wd eq
    by (rule logWeatherData_only_logs)
  note cached_cycle_no_alert
  moreover have "alerts (database (claimed_runWeatherCheck dry_env cached_scheduler)) =
       [new_alert 2 1 1 ''Automated Alert: Major earthquake''
          (Seismic_text 6.8 ''Dhaka'' 6.5) ''Critical'' ''System'' (Some ''us7000test'')]"
    unfolding claimed_runWeatherCheck_def
    by (simp add: cached_scheduler_def locs w Let_def nearest_near_feature)
       (subst logged, simp add: checkRulesAndAlert_weather_logs calm_with_event)
  ultimately show ?thesis by (simp add: cached_scheduler_def)
qed

section \<open>The intervals of the two loops\<close>

lemma weather_alert_settings [simp]:
  "settings (weather_alert location rule v s) = settings s"
  by (simp add: weather_alert_def Let_def)

lemma earthquake_alert_settings [simp]:
  "settings (earthquake_alert location rule v ev s) = settings s"
  by (simp add: earthquake_alert_def)

lemma process_rule_settings:
  "settings (store (process_rule location w e rule c)) = settings (store c)"
proof (cases "triggers rule w e")
  case False
  then show ?thesis by (simp add: process_rule_not_triggered)
next
  case True
  then obtain v where v: "currentValue_of (weather_condition rule) w e = Some v"
      "evaluate_operator rule v"
    by (auto simp: triggers_def split: option.splits)
  show ?thesis
  proof (cases "weather_condition rule = earthquake_magnitude")
    case False
    from process_rule_weather [OF False v] show ?thesis by simp
  next
    case eq: True
    with v obtain ev where ev: "e = Some ev" "magnitude ev = Some v"
      by (cases e) simp_all
    from process_rule_earthquake [OF eq ev(2) v(2)] ev(1) show ?thesis by simp
  qed
qed

lemma for_each_rule_settings:
  "settings (store (for_each_rule location w e rules c)) = settings (store c)"
  by (induction rules arbitrary: c) (simp_all add: process_rule_settings)

lemma auto_deactivation_settings:
  "settings (auto_deactivation location trig ids s) = settings s"
  by (induction ids arbitrary: s) simp_all

lemma checkRulesAndAlert_settings:
  "settings (checkRulesAndAlert location w e s) = settings s"
  by (simp add: checkRulesAndAlert_def run_rules_def Let_def for_each_rule_settings
      auto_deactivation_settings)

lemma logWeatherData_settings:
  "settings (logWeatherData now lid w eq s) = settings s"
  by (simp add: logWeatherData_def split: option.split)

lemma logEarthquakeData_settings:
  "settings (logEarthquakeData lid eq s) = settings s"
  by (simp add: logEarthquakeData_def split: option.split)

lemma weather_locations_settings:
  "settings (weather_locations e cache locs s) = settings s"
  by (induction locs arbitrary: s)
     (simp_all add: Let_def checkRulesAndAlert_settings logWeatherData_settings)

lemma earthquake_locations_settings:
  "settings (earthquake_locations feed locs s) = settings s"
  by (induction locs arbitrary: s)
     (simp_all add: Let_def checkRulesAndAlert_settings logEarthquakeData_settings)

lemma getSetting_cong:
  "settings s = settings s' \<Longrightarrow> getSetting s key dflt = getSetting s' key dflt"
  by (simp add: getSetting_def)

lemma weatherLoop_timer:
  "weatherTimer (weatherLoop e sch) =
     Some (js_times (js_max (Num 30)
             (getSetting (database sch) ''weather_fetch_interval'' (Num 300))) (Num 1000))"
proof -
  have "settings (database (runWeatherCheck e sch)) = settings (database sch)"
    by (simp add: runWeatherCheck_def weather_locations_settings)
  from getSetting_cong [OF this] show ?thesis by (simp add: weatherLoop_def Let_def)
qed

lemma earthquakeLoop_timer:
  "earthquakeTimer (earthquakeLoop e sch) =
     Some (js_times (js_max (Num 30)
             (getSetting (database sch) ''earthquake_fetch_interval'' (Num 60))) (Num 1000))"
proof -
  have "settings (database (runEarthquakeCheck e sch)) = settings (database sch)"
    by (simp add: runEarthquakeCheck_def Let_def earthquake_locations_settings)
  from getSetting_cong [OF this] show ?thesis by (simp add: earthquakeLoop_def Let_def)
qed

lemma no_row_of_key:
  "key \<notin> fst ` set rows \<Longrightarrow> [v. (k, v) \<leftarrow> rows, k = key] = []"
  by (induction rows) auto

lemma getSetting_absent:
  "key \<notin> fst ` set (settings s) \<Longrightarrow> getSetting s key dflt = dflt"
  by (simp add: getSetting_def no_row_of_key)

lemma floor_iff:
  "at_least_floor (Some (js_times (js_max (Num 30) x) (Num 1000))) \<longleftrightarrow>
     (\<exists>n. x = Num n \<and> n \<le> 2147483)"
  by (cases x) (auto simp: at_least_floor_def)

text \<open>
  Claim C8 fails on the code at a weather interval that is no number: \<open>parseInt\<close> gives
  NaN, \<open>Math.max(30, NaN)\<close> is NaN, and the timer is armed with NaN instead of a delay of at
  least 30 seconds.
\<close>

theorem non_numeric_interval_breaks_floor:
  "settings (database stalled_scheduler) = [(''weather_fetch_interval'', ''abc'')]
   \<and> parseInt ''abc'' = NaN
   \<and> weatherTimer (weatherLoop dry_env stalled_scheduler) = Some NaN
   \<and> \<not> at_least_floor (weatherTimer (weatherLoop dry_env stalled_scheduler))"
proof -
  have p: "parseInt ''abc'' = NaN"
    by (simp add: parseInt_def is_white_space_def is_digit_def)
  have "getSetting (database stalled_scheduler) ''weather_fetch_interval'' (Num 300) = NaN"
    by (simp add: getSetting_def stalled_scheduler_def p)
  then have "weatherTimer (weatherLoop dry_env stalled_scheduler) = Some NaN"
    by (simp add: weatherLoop_timer)
  then show ?thesis by (simp add: at_least_floor_def stalled_scheduler_def p)
qed

text \<open>
  Both loops always arm their timer. The number of milliseconds given to the timer is
  the default (300 or 60 seconds) when the key has no row, and \<open>max 30 n\<close> seconds when the
  first row of the key parses to the integer \<open>n\<close>. The timer waits at least 30 seconds
  exactly when the setting is an integer of at most 2147483 seconds: not when it parses
  to NaN, and not when the milliseconds exceed \<open>2^31 - 1\<close>.
\<close>

theorem loops_rearm_with_clamped_interval:
  "(\<exists>ms. weatherTimer (weatherLoop e sch) = Some ms)
   \<and> (\<exists>ms. earthquakeTimer (earthquakeLoop e sch) = Some ms)
   \<and> (''weather_fetch_interval'' \<notin> fst ` set (settings (database sch)) \<longrightarrow>
        weatherTimer (weatherLoop e sch) = Some (Num 300000))
   \<and> (''earthquake_fetch_interval'' \<notin> fst ` set (settings (database sch)) \<longrightarrow>
        earthquakeTimer (earthquakeLoop e sch) = Some (Num 60000))
   \<and> (\<forall>n. getSetting (database sch) ''weather_fetch_interval'' (Num 300) = Num n \<longrightarrow>
        weatherTimer (weatherLoop e sch) = Some (Num (max 30 n * 1000)))
   \<and> (\<forall>n. getSetting (database sch) ''earthquake_fetch_interval'' (Num 60) = Num n \<longrightarrow>
        earthquakeTimer (earthquakeLoop e sch) = Some (Num (max 30 n * 1000)))
   \<and> (at_least_floor (weatherTimer (weatherLoop e sch)) \<longleftrightarrow>
        (\<exists>n. getSetting (database sch) ''weather_fetch_interval'' (Num 300) = Num n
             \<and> n \<le> 2147483))
   \<and> (at_least_floor (earthquakeTimer (earthquakeLoop e sch)) \<longleftrightarrow>
        (\<exists>n. getSetting (database sch) ''earthquake_fetch_interval'' (Num 60) = Num n
             \<and> n \<le> 2147483))"
  by (simp add: weatherLoop_timer earthquakeLoop_timer getSetting_absent floor_iff)

text \<open>
  The loops at instances: an interval of 3600 seconds is kept, one of 10 seconds is raised
  to the floor, and an absent key gives the default.
\<close>

theorem loops_rearm_with_clamped_interval_witness:
  "getSetting (database hourly_scheduler) ''weather_fetch_interval'' (Num 300) = Num 3600
   \<and> weatherTimer (weatherLoop dry_env hourly_scheduler) = Some (Num 3600000)
   \<and> getSetting (database hourly_scheduler) ''earthquake_fetch_interval'' (Num 60) = Num 10
   \<and> earthquakeTimer (earthquakeLoop dry_env hourly_scheduler) = Some (Num 30000)
   \<and> ''weather_fetch_interval'' \<notin> fst ` set (settings (database cached_scheduler))
   \<and> weatherTimer (weatherLoop dry_env cached_scheduler) = Some (Num 300000)
   \<and> at_least_floor (weatherTimer (weatherLoop dry_env hourly_scheduler))"
proof -
  have w: "getSetting (database hourly_scheduler) ''weather_fetch_interval'' (Num 300) = Num 3600"
    by (simp add: getSetting_def hourly_scheduler_def parseInt_def is_white_space_def
        is_digit_def digits_value_def)
  have q: "getSetting (database hourly_scheduler) ''earthquake_fetch_interval'' (Num 60) = Num 10"
    by (simp add: getSetting_def hourly_scheduler_def parseInt_def is_white_space_def
        is_digit_def digits_value_def)
  have a: "''weather_fetch_interval'' \<notin> fst ` set (settings (database cached_scheduler))"
    by (simp add: cached_scheduler_def calm_db_def example_db_def)
  note hourly = loops_rearm_with_clamped_interval [of dry_env hourly_scheduler]
  note cached = loops_rearm_with_clamped_interval [of dry_env cached_scheduler]
  from hourly w have t1: "weatherTimer (weatherLoop dry_env hourly_scheduler) = Some (Num 3600000)"
    by auto
  from hourly q have t2: "earthquakeTimer (earthquakeLoop dry_env hourly_scheduler) = Some (Num 30000)"
    by auto
  from cached a have t3: "weatherTimer (weatherLoop dry_env cached_scheduler) = Some (Num 300000)"
    by blast
  from hourly w have t4: "at_least_floor (weatherTimer (weatherLoop dry_env hourly_scheduler))"
    by auto
  from w q a t1 t2 t3 t4 show ?thesis by simp
qed

text \<open>
  The floor is also lost at an interval of 2147484 seconds, which the settings route
  accepts: the timer is given 2147484000 milliseconds, more than \<open>2^31 - 1\<close>.
\<close>

theorem oversized_interval_breaks_floor:
  "settings (database oversized_scheduler) = [(''weather_fetch_interval'', ''2147484'')]
   \<and> parseInt ''2147484'' = Num 2147484
   \<and> weatherTimer (weatherLoop dry_env oversized_scheduler) = Some (Num 2147484000)
   \<and> \<not> at_least_floor (weatherTimer (weatherLoop dry_env oversized_scheduler))"
proof -
  have p: "parseInt ''2147484'' = Num 2147484"
    by (simp add: parseInt_def is_white_space_def is_digit_def digits_value_def)
  have "getSetting (database oversized_scheduler) ''weather_fetch_interval'' (Num 300) =
        Num 2147484"
    by (simp add: getSetting_def oversized_scheduler_def p)
  then have "weatherTimer (weatherLoop dry_env oversized_scheduler) = Some (Num 2147484000)"
    by (simp add: weatherLoop_timer)
  then show ?thesis by (simp add: at_least_floor_def oversized_scheduler_def p)
qed

end
